theory Spec2Isabelle
  imports Complex_Main "HOL-Library.Log_Nat"
begin

section \<open>Numbers and shared tables\<close>

text \<open>
  The program is TypeScript; every \<open>number\<close> is modelled as a \<open>real\<close>. Where the
  source divides by a number that can be 0, JavaScript yields a value that is not finite;
  each such quotient is written out as an \<open>option\<close>, \<open>None\<close> standing for the
  non-finite result, also where the source guards the division by a test, so that the
  guard is part of the model. All other divisions are by constants. File names are
  relative to the directory \<open>src\<close> of the repository.

  A \<open>number\<close> is an IEEE-754 double, and each arithmetic operation rounds its exact
  result to a double. The arithmetic below is exact, except in the two functions whose
  statements depend on the rounding: the health score and the updates of the matching
  loop of \<open>calculateRebalanceActions\<close>, where each operation of the source is written
  with \<open>binary64\<close> around its exact result.
\<close>

text \<open>
  \<open>binary64\<close> rounds a real to the nearest double, a tie going to the double whose
  significand is even: the number is scaled by the power of two of its binade
  (\<open>2^(e - 52)\<close> for a number in \<open>[2^e, 2^(e+1))\<close>, and \<open>2^-1074\<close> for the subnormal
  numbers below \<open>2^-1022\<close>), rounded to an integer by \<open>roundEven\<close>, and scaled back;
  \<open>floorLog2\<close> is the \<open>e\<close> of a positive number, read off the bit length of its
  integer part, or of the integer part of its inverse. The overflow to \<open>Infinity\<close>
  (from \<open>2^1024\<close> on) is not modelled: the function goes on rounding to 53 bits there.
\<close>

definition roundEven :: "real \<Rightarrow> int" where
  "roundEven m = (let f = \<lfloor>m\<rfloor>; r = m - of_int f in
     if r < 1 / 2 then f else if 1 / 2 < r then f + 1 else if even f then f else f + 1)"

definition floorLog2 :: "real \<Rightarrow> int" where
  "floorLog2 x = (if 1 \<le> x then bitlen \<lfloor>x\<rfloor> - 1 else - bitlen (\<lceil>1 / x\<rceil> - 1))"

definition binary64_exponent :: "real \<Rightarrow> int" where
  "binary64_exponent x = max (floorLog2 \<bar>x\<bar>) (- 1022) - 52"

definition binary64 :: "real \<Rightarrow> real" where
  "binary64 x = (if x = 0 then 0
     else of_int (roundEven (x / 2 powi binary64_exponent x)) * 2 powi binary64_exponent x)"

text \<open>\<open>COMMON_TOKENS\<close> of \<open>sdk/types.ts\<close>.\<close>

definition COMMON_TOKENS_USDC :: string where
  "COMMON_TOKENS_USDC = ''EPjFWdd5AufqSSqeM2qN1xzybapC8G4wEGGkZwyTDt1v''"

definition COMMON_TOKENS_USDT :: string where
  "COMMON_TOKENS_USDT = ''Es9vMFrzaCERmJfrF4H2FYD4KCoNkY11McCe8BenwNYB''"

definition COMMON_TOKENS_SOL :: string where
  "COMMON_TOKENS_SOL = ''So11111111111111111111111111111111111111112''"

definition COMMON_TOKENS_WBTC :: string where
  "COMMON_TOKENS_WBTC = ''3NZ9JMVBmGAqocybic2c7LQCJScmgsAZ6vQqTDzcqmJh''"

definition COMMON_TOKENS_WETH :: string where
  "COMMON_TOKENS_WETH = ''7vfCXTUXx5WJV5JADk17DUJ4ksgau7utNKj4b963voxs''"

section \<open>Profiles and strategies\<close>

text \<open>
  The agent's types are the last part of \<open>agent/portfolio-builder.ts\<close> (from line 630);
  the three strategies and \<open>getStrategy\<close> are \<open>unnamed/part_006\<close> and
  \<open>unnamed/part_005\<close>.
\<close>

datatype RiskLevel = Conservative | Moderate | Aggressive

datatype InvestmentGoal = Growth | Income | Preservation | Speculation

datatype TimeHorizon = Short | Medium | Long

record UserProfile =
  riskTolerance :: RiskLevel
  investmentGoals :: "InvestmentGoal list"
  timeHorizon :: TimeHorizon
  preferredAssets :: "string list option"
  excludedAssets :: "string list option"
  totalInvestment :: real

text \<open>
  The object \<open>{stablecoins, sol, otherTokens, stocks}\<close> is the shape of
  \<open>StrategyDefinition.allocations\<close>, of \<open>PortfolioAllocation\<close> and of the locals
  \<open>targets\<close>, \<open>current\<close> and \<open>deltas\<close> of \<open>createExecutionPlan\<close>.
\<close>

record Allocations =
  stablecoins :: real
  sol :: real
  otherTokens :: real
  stocks :: real

record AssetAllocation =
  asset_id :: string
  asset_symbol :: string
  percentageOfCategory :: real
  targetAmountUsd :: "real option"

record RecommendedAssets =
  rec_stablecoins :: "AssetAllocation list"
  rec_tokens :: "AssetAllocation list"
  rec_stocks :: "AssetAllocation list"

record StrategyDefinition =
  name :: string
  description :: string
  riskLevel :: RiskLevel
  allocations :: Allocations
  recommendedAssets :: RecommendedAssets

text \<open>An entry of \<open>recommendedAssets\<close>; none of them sets \<open>targetAmountUsd\<close>.\<close>

definition asset :: "string \<Rightarrow> string \<Rightarrow> real \<Rightarrow> AssetAllocation" where
  "asset i s p = \<lparr>asset_id = i, asset_symbol = s, percentageOfCategory = p,
                  targetAmountUsd = None\<rparr>"

definition conservativeStrategy :: StrategyDefinition where
  "conservativeStrategy =
     \<lparr>name = ''Conservative'',
      description = ''Low-risk portfolio focused on capital preservation with emphasis on stablecoins and blue-chip stocks'',
      riskLevel = Conservative,
      allocations = \<lparr>stablecoins = 50, sol = 15, otherTokens = 5, stocks = 30\<rparr>,
      recommendedAssets =
        \<lparr>rec_stablecoins = [asset COMMON_TOKENS_USDC ''USDC'' 70, asset COMMON_TOKENS_USDT ''USDT'' 30],
         rec_tokens = [asset COMMON_TOKENS_WBTC ''WBTC'' 50, asset COMMON_TOKENS_WETH ''WETH'' 50],
         rec_stocks = [asset ''aapl'' ''AAPL'' 40, asset ''msft'' ''MSFT'' 35, asset ''goog'' ''GOOG'' 25]\<rparr>\<rparr>"

definition moderateStrategy :: StrategyDefinition where
  "moderateStrategy =
     \<lparr>name = ''Moderate'',
      description = ''Balanced portfolio with mix of growth and stability, suitable for medium-term investors'',
      riskLevel = Moderate,
      allocations = \<lparr>stablecoins = 25, sol = 30, otherTokens = 15, stocks = 30\<rparr>,
      recommendedAssets =
        \<lparr>rec_stablecoins = [asset COMMON_TOKENS_USDC ''USDC'' 80, asset COMMON_TOKENS_USDT ''USDT'' 20],
         rec_tokens = [asset COMMON_TOKENS_WBTC ''WBTC'' 30, asset COMMON_TOKENS_WETH ''WETH'' 30,
                       asset ''4k3Dyjzvzp8eMZWUXbBCjEvwSkkk59S5iCNLY3QrkX6R'' ''RAY'' 20,
                       asset ''DezXAZ8z7PnrnRJjz3wXBoRgixCa6xjnB7YaB1pPB263'' ''BONK'' 20],
         rec_stocks = [asset ''aapl'' ''AAPL'' 25, asset ''msft'' ''MSFT'' 25,
                       asset ''nvda'' ''NVDA'' 25, asset ''tsla'' ''TSLA'' 25]\<rparr>\<rparr>"

definition aggressiveStrategy :: StrategyDefinition where
  "aggressiveStrategy =
     \<lparr>name = ''Aggressive'',
      description = ''High-risk portfolio focused on maximum growth, suitable for long-term investors with high risk tolerance'',
      riskLevel = Aggressive,
      allocations = \<lparr>stablecoins = 10, sol = 40, otherTokens = 30, stocks = 20\<rparr>,
      recommendedAssets =
        \<lparr>rec_stablecoins = [asset COMMON_TOKENS_USDC ''USDC'' 100],
         rec_tokens = [asset COMMON_TOKENS_WBTC ''WBTC'' 20, asset COMMON_TOKENS_WETH ''WETH'' 20,
                       asset ''4k3Dyjzvzp8eMZWUXbBCjEvwSkkk59S5iCNLY3QrkX6R'' ''RAY'' 20,
                       asset ''DezXAZ8z7PnrnRJjz3wXBoRgixCa6xjnB7YaB1pPB263'' ''BONK'' 25,
                       asset ''SRMuApVNdxXokk5GT7XD5cUUgXMBCoAz2LHeuAoKWRt'' ''SRM'' 15],
         rec_stocks = [asset ''nvda'' ''NVDA'' 35, asset ''tsla'' ''TSLA'' 35,
                       asset ''coin'' ''COIN'' 30]\<rparr>\<rparr>"

text \<open>
  \<open>getStrategy\<close>: the \<open>default\<close> branch of the switch is unreachable for the three
  values of the parameter's type.
\<close>

fun getStrategy :: "RiskLevel \<Rightarrow> StrategyDefinition" where
  "getStrategy Conservative = conservativeStrategy"
| "getStrategy Moderate = moderateStrategy"
| "getStrategy Aggressive = aggressiveStrategy"

definition allocationTotal :: "Allocations \<Rightarrow> real" where
  "allocationTotal a = stablecoins a + sol a + otherTokens a + stocks a"

text \<open>
  \<open>adjustStrategyForProfile\<close> (\<open>agent/portfolio-builder.ts\<close>, lines 63-110). The source
  mutates a copy of the allocations: \<open>adjustTimeHorizon\<close>, \<open>adjustGoals\<close> and \<open>normalize\<close>
  are its three blocks in order, each from the copy as the block before left it. The
  normalisation divides by \<open>total\<close>: for \<open>total = 0\<close> JavaScript yields non-finite
  allocations, a case written out as \<open>None\<close>.
\<close>

definition adjustTimeHorizon :: "TimeHorizon \<Rightarrow> Allocations \<Rightarrow> Allocations" where
  "adjustTimeHorizon h a =
     (if h = Short then
        a\<lparr>stablecoins := stablecoins a + 10, sol := sol a - 5, otherTokens := otherTokens a - 5\<rparr>
      else if h = Long then
        a\<lparr>stablecoins := stablecoins a - 5, sol := sol a + 5\<rparr>
      else a)"

definition adjustGoals :: "InvestmentGoal list \<Rightarrow> Allocations \<Rightarrow> Allocations" where
  "adjustGoals goals a1 =
     (let a2 = (if Income \<in> set goals then
                  a1\<lparr>stablecoins := stablecoins a1 + 5, otherTokens := otherTokens a1 - 5\<rparr>
                else a1);
          a3 = (if Speculation \<in> set goals then
                  a2\<lparr>otherTokens := otherTokens a2 + 10, stablecoins := stablecoins a2 - 10\<rparr>
                else a2)
      in a3)"

definition normalize :: "Allocations \<Rightarrow> Allocations option" where
  "normalize a3 =
     (let total = stablecoins a3 + sol a3 + otherTokens a3 + stocks a3 in
      if total \<noteq> 100 then
        (if total = 0 then None
         else let factor = 100 / total in
           Some (a3\<lparr>stablecoins := stablecoins a3 * factor, sol := sol a3 * factor,
                    otherTokens := otherTokens a3 * factor, stocks := stocks a3 * factor\<rparr>))
      else Some a3)"

definition adjustStrategyForProfile ::
  "StrategyDefinition \<Rightarrow> UserProfile \<Rightarrow> StrategyDefinition option" where
  "adjustStrategyForProfile strategy profile =
     (case normalize (adjustGoals (investmentGoals profile)
                        (adjustTimeHorizon (timeHorizon profile) (allocations strategy))) of
        None \<Rightarrow> None
      | Some a4 \<Rightarrow> Some (strategy\<lparr>allocations := a4\<rparr>))"

definition analyzeProfile :: "UserProfile \<Rightarrow> StrategyDefinition option" where
  "analyzeProfile profile = adjustStrategyForProfile (getStrategy (riskTolerance profile)) profile"

section \<open>Portfolio module (\<open>unnamed/part_003\<close>)\<close>

record TokenBalance =
  mint :: string
  symbol :: string
  rawBalance :: int
  balance :: real
  valueUsd :: real

record StockBalance =
  stock_id :: string
  stock_symbol :: string
  shares :: real
  stock_valueUsd :: real

text \<open>\<open>Portfolio\<close>; the field \<open>updatedAt\<close> (the wall clock) is read by nothing below.\<close>

record Portfolio =
  accountAddress :: string
  tokens :: "TokenBalance list"
  portfolio_stocks :: "StockBalance list"
  totalValueUsd :: real
  allocation :: Allocations

text \<open>\<open>xs.reduce((sum, t) => sum + t.valueUsd, 0)\<close>, left to right from 0.\<close>

definition sumValueUsd :: "TokenBalance list \<Rightarrow> real" where
  "sumValueUsd ts = foldl (\<lambda>sum t. sum + valueUsd t) 0 ts"

definition sumStockValueUsd :: "StockBalance list \<Rightarrow> real" where
  "sumStockValueUsd ss = foldl (\<lambda>sum s. sum + stock_valueUsd s) 0 ss"

definition stablecoinMints :: "string list" where
  "stablecoinMints = [COMMON_TOKENS_USDC, COMMON_TOKENS_USDT]"

definition stablecoinValue :: "TokenBalance list \<Rightarrow> real" where
  "stablecoinValue ts = sumValueUsd (filter (\<lambda>t. mint t \<in> set stablecoinMints) ts)"

definition solValue :: "TokenBalance list \<Rightarrow> real" where
  "solValue ts = sumValueUsd (filter (\<lambda>t. mint t = COMMON_TOKENS_SOL) ts)"

definition otherTokenValue :: "TokenBalance list \<Rightarrow> real" where
  "otherTokenValue ts =
     sumValueUsd (filter (\<lambda>t. mint t \<notin> set stablecoinMints \<and> mint t \<noteq> COMMON_TOKENS_SOL) ts)"

text \<open>\<open>x / y * 100\<close>: not finite when \<open>y\<close> is 0.\<close>

definition pctOf :: "real \<Rightarrow> real \<Rightarrow> real option" where
  "pctOf x y = (if y = 0 then None else Some ((x / y) * 100))"

text \<open>
  \<open>calculateAllocation\<close> (lines 203-242): the early return for a total of 0, then the
  four quotients by the total. The result is \<open>None\<close> when one of the quotients is not
  finite.
\<close>

definition calculateAllocation ::
  "TokenBalance list \<Rightarrow> StockBalance list \<Rightarrow> real \<Rightarrow> Allocations option" where
  "calculateAllocation toks stks totalValue =
     (if totalValue = 0 then Some \<lparr>stablecoins = 0, sol = 0, otherTokens = 0, stocks = 0\<rparr>
      else
        (case (pctOf (stablecoinValue toks) totalValue, pctOf (solValue toks) totalValue,
               pctOf (otherTokenValue toks) totalValue, pctOf (sumStockValueUsd stks) totalValue) of
           (Some stablePct, Some solPct, Some otherPct, Some stockPct) \<Rightarrow>
             Some \<lparr>stablecoins = stablePct, sol = solPct, otherTokens = otherPct,
                   stocks = stockPct\<rparr>
         | _ \<Rightarrow> None))"

text \<open>
  The tail of \<open>getPortfolio\<close> (from "Calculate totals and allocation" to the return):
  the balances fetched from the chain before it are its parameters. The result is
  \<open>None\<close> when the allocation holds a number that is not finite.
\<close>

definition getPortfolio_assemble ::
  "string \<Rightarrow> TokenBalance list \<Rightarrow> StockBalance list \<Rightarrow> Portfolio option" where
  "getPortfolio_assemble addr allTokenBalances stockBalances =
     (let totalTokenValue = sumValueUsd allTokenBalances;
          totalStockValue = sumStockValueUsd stockBalances;
          totalValue = totalTokenValue + totalStockValue
      in case calculateAllocation allTokenBalances stockBalances totalValue of
           None \<Rightarrow> None
         | Some alloc \<Rightarrow>
             Some \<lparr>accountAddress = addr, tokens = allTokenBalances,
                   portfolio_stocks = stockBalances, totalValueUsd = totalValue,
                   allocation = alloc\<rparr>)"

record Comparison =
  assetType :: string
  targetPct :: real
  actualPct :: real
  deviationPct :: real

text \<open>\<open>compareToTarget\<close> (lines 247-279).\<close>

definition compareToTarget :: "Portfolio \<Rightarrow> Allocations \<Rightarrow> Comparison list" where
  "compareToTarget portfolio targetAllocations =
     (let a = allocation portfolio in
      [\<lparr>assetType = ''stablecoins'', targetPct = stablecoins targetAllocations,
        actualPct = stablecoins a,
        deviationPct = stablecoins a - stablecoins targetAllocations\<rparr>,
       \<lparr>assetType = ''sol'', targetPct = sol targetAllocations,
        actualPct = sol a,
        deviationPct = sol a - sol targetAllocations\<rparr>,
       \<lparr>assetType = ''otherTokens'', targetPct = otherTokens targetAllocations,
        actualPct = otherTokens a,
        deviationPct = otherTokens a - otherTokens targetAllocations\<rparr>,
       \<lparr>assetType = ''stocks'', targetPct = stocks targetAllocations,
        actualPct = stocks a,
        deviationPct = stocks a - stocks targetAllocations\<rparr>])"

definition needsRebalancing :: "Portfolio \<Rightarrow> Allocations \<Rightarrow> real \<Rightarrow> bool" where
  "needsRebalancing portfolio targetAllocations thresholdPct =
     list_ex (\<lambda>c. \<bar>deviationPct c\<bar> > thresholdPct) (compareToTarget portfolio targetAllocations)"

section \<open>Health score (\<open>agent/portfolio-builder.ts\<close>, lines 156-168)\<close>

text \<open>
  \<open>Math.round\<close>: the nearest integer, a tie going up. \<open>Math.abs\<close> and \<open>Math.max\<close> are
  exact; the additions of the \<open>reduce\<close>, the division by 2 and the subtraction from 100
  each round to a double.
\<close>

definition Math_round :: "real \<Rightarrow> int" where
  "Math_round x = \<lfloor>x + 1 / 2\<rfloor>"

definition totalDeviation :: "Comparison list \<Rightarrow> real" where
  "totalDeviation comparison =
     foldl (\<lambda>sum c. binary64 (sum + \<bar>deviationPct c\<bar>)) 0 comparison"

definition calculateHealthScore :: "Comparison list \<Rightarrow> int" where
  "calculateHealthScore comparison =
     (let score = max 0 (binary64 (100 - binary64 (totalDeviation comparison / 2)))
      in Math_round score)"

section \<open>Autonomous manager (\<open>agent/claude-agent.ts\<close>, from line 544)\<close>

text \<open>\<open>TOKENS\<close> of \<open>sdk/agent-wallet.ts\<close>, as far as \<open>TOKEN_INFO\<close> names them.\<close>

definition TOKENS_SOL :: string where
  "TOKENS_SOL = ''So11111111111111111111111111111111111111112''"

definition TOKENS_USDC :: string where
  "TOKENS_USDC = ''EPjFWdd5AufqSSqeM2qN1xzybapC8G4wEGGkZwyTDt1v''"

definition TOKENS_USDT :: string where
  "TOKENS_USDT = ''Es9vMFrzaCERmJfrF4H2FYD4KCoNkY11McCe8BenwNYB''"

definition TOKENS_USDY :: string where
  "TOKENS_USDY = ''A1KLoBrKBde8Ty9qtNQUtq3C2ortoC3u7twggz7sEto6''"

definition TOKENS_EURC :: string where
  "TOKENS_EURC = ''HzwqbKZw8HxMN6bF2yFZNrht3c2iXXzpKcFu7uBEDKtr''"

record TokenInfo =
  info_mint :: string
  info_decimals :: nat
  info_priceUsd :: "real option"

definition TOKEN_INFO :: "string \<Rightarrow> TokenInfo option" where
  "TOKEN_INFO smb =
     (if smb = ''SOL'' then
        Some \<lparr>info_mint = TOKENS_SOL, info_decimals = 9, info_priceUsd = Some 180\<rparr>
      else if smb = ''USDC'' then
        Some \<lparr>info_mint = TOKENS_USDC, info_decimals = 6, info_priceUsd = Some 1\<rparr>
      else if smb = ''USDY'' then
        Some \<lparr>info_mint = TOKENS_USDY, info_decimals = 6, info_priceUsd = Some (112 / 100)\<rparr>
      else if smb = ''EURC'' then
        Some \<lparr>info_mint = TOKENS_EURC, info_decimals = 6, info_priceUsd = Some (104 / 100)\<rparr>
      else if smb = ''USDT'' then
        Some \<lparr>info_mint = TOKENS_USDT, info_decimals = 6, info_priceUsd = Some 1\<rparr>
      else None)"


text \<open>
  \<open>ManagerConfig\<close>: both numbers are optional. \<open>v || d\<close> on an optional number takes
  \<open>d\<close> when \<open>v\<close> is undefined or 0.
\<close>

record ManagerConfig =
  privyAppId :: string
  privyAppSecret :: string
  rpcUrl :: "string option"
  cfg_rebalanceThresholdPct :: "real option"
  minTradeUsd :: "real option"

definition js_or :: "real option \<Rightarrow> real \<Rightarrow> real" where
  "js_or v d = (case v of None \<Rightarrow> d | Some x \<Rightarrow> if x = 0 then d else x)"

record Holding =
  h_symbol :: string
  h_mint :: string
  h_amount :: real
  h_valueUsd :: real
  h_percentage :: real

record PortfolioState =
  state_totalValueUsd :: real
  holdings :: "Holding list"

text \<open>The entries of the two local arrays of \<open>calculateRebalanceActions\<close>.\<close>

record Overweight =
  o_symbol :: string
  excessUsd :: real
  o_mint :: string
  o_decimals :: nat

record Underweight =
  u_symbol :: string
  deficitUsd :: real
  u_mint :: string

datatype ActionType = Buy | Sell

text \<open>
  \<open>RebalanceAction\<close>. The source's \<open>amount\<close> is the decimal string of an integer, kept
  as that integer; its \<open>reason\<close> is a sentence built from the two symbols and the local
  \<open>tradeUsd\<close>, of which the field \<open>tradeUsd\<close> keeps the number.
\<close>

record RebalanceAction =
  action_type :: ActionType
  fromSymbol :: string
  toSymbol :: string
  amount :: int
  tradeUsd :: real

text \<open>
  The first loop of \<open>calculateRebalanceActions\<close> (lines 993-1011), over
  \<open>Object.entries(this.targetAllocation)\<close>, an association list in insertion order. The
  two arrays it pushes to are the accumulators.
\<close>

definition currentPct :: "PortfolioState \<Rightarrow> string \<Rightarrow> real" where
  "currentPct st smb =
     (case find (\<lambda>h. h_symbol h = smb) (holdings st) of
        None \<Rightarrow> 0 | Some holding \<Rightarrow> h_percentage holding)"

definition currentValueUsd :: "PortfolioState \<Rightarrow> string \<Rightarrow> real" where
  "currentValueUsd st smb =
     (case find (\<lambda>h. h_symbol h = smb) (holdings st) of
        None \<Rightarrow> 0 | Some holding \<Rightarrow> h_valueUsd holding)"

fun findPositions ::
  "real \<Rightarrow> real \<Rightarrow> PortfolioState \<Rightarrow> (string \<times> real) list
     \<Rightarrow> Overweight list \<Rightarrow> Underweight list \<Rightarrow> Overweight list \<times> Underweight list" where
  "findPositions threshold minTrade st [] overweight underweight = (overweight, underweight)"
| "findPositions threshold minTrade st ((smb, tgtPct) # entries) overweight underweight =
     (let targetValueUsd = (tgtPct / 100) * state_totalValueUsd st;
          diff = currentValueUsd st smb - targetValueUsd
      in if diff > minTrade \<and> (currentPct st smb - tgtPct) > threshold then
           (case TOKEN_INFO smb of
              Some info \<Rightarrow>
                findPositions threshold minTrade st entries
                  (overweight @ [\<lparr>o_symbol = smb, excessUsd = diff, o_mint = info_mint info,
                                  o_decimals = info_decimals info\<rparr>]) underweight
            | None \<Rightarrow> findPositions threshold minTrade st entries overweight underweight)
         else if diff < - minTrade \<and> (tgtPct - currentPct st smb) > threshold then
           (case TOKEN_INFO smb of
              Some info \<Rightarrow>
                findPositions threshold minTrade st entries overweight
                  (underweight @ [\<lparr>u_symbol = smb, deficitUsd = - diff, u_mint = info_mint info\<rparr>])
            | None \<Rightarrow> findPositions threshold minTrade st entries overweight underweight)
         else findPositions threshold minTrade st entries overweight underweight)"

text \<open>
  The matching loops (lines 1013-1033). The inner loop runs one overweight entry over
  the underweight array; both objects are mutated in place, so it returns the
  overweight entry and the array as they are afterwards, with the actions it pushed.
  The two amounts are carried from one iteration to the next, so the updates
  \<open>over.excessUsd -= tradeUsd\<close> and \<open>under.deficitUsd -= tradeUsd\<close> are written with the
  rounding of the difference to a double.
\<close>

definition sellPrice :: "string \<Rightarrow> real" where
  "sellPrice smb = (case TOKEN_INFO smb of None \<Rightarrow> 1 | Some info \<Rightarrow> js_or (info_priceUsd info) 1)"

fun matchUnderweight ::
  "real \<Rightarrow> Overweight \<Rightarrow> Underweight list
     \<Rightarrow> Overweight \<times> Underweight list \<times> RebalanceAction list" where
  "matchUnderweight minTrade ovr [] = (ovr, [], [])"
| "matchUnderweight minTrade ovr (und # rest) =
     (if excessUsd ovr < minTrade \<or> deficitUsd und < minTrade then
        (case matchUnderweight minTrade ovr rest of
           (ovr', rest', actions) \<Rightarrow> (ovr', und # rest', actions))
      else
        (let trade = min (excessUsd ovr) (deficitUsd und);
             tokenAmount = trade / sellPrice (o_symbol ovr);
             rawAmount = \<lfloor>tokenAmount * 10 ^ o_decimals ovr\<rfloor>;
             action = \<lparr>action_type = Sell, fromSymbol = o_symbol ovr,
                       toSymbol = u_symbol und, amount = rawAmount, tradeUsd = trade\<rparr>
         in case matchUnderweight minTrade
                   (ovr\<lparr>excessUsd := binary64 (excessUsd ovr - trade)\<rparr>) rest of
              (ovr', rest', actions) \<Rightarrow>
                (ovr', und\<lparr>deficitUsd := binary64 (deficitUsd und - trade)\<rparr> # rest',
                 action # actions)))"

fun matchOverweight ::
  "real \<Rightarrow> Overweight list \<Rightarrow> Underweight list \<Rightarrow> RebalanceAction list" where
  "matchOverweight minTrade [] underweight = []"
| "matchOverweight minTrade (ovr # rest) underweight =
     (case matchUnderweight minTrade ovr underweight of
        (ovr', underweight', actions) \<Rightarrow> actions @ matchOverweight minTrade rest underweight')"

text \<open>
  \<open>calculateRebalanceActions\<close> (lines 983-1036); \<open>st\<close> is the portfolio state awaited on
  its first line, \<open>targetAllocation\<close> the manager's field.
\<close>

definition threshold_of :: "ManagerConfig \<Rightarrow> real" where
  "threshold_of cfg = js_or (cfg_rebalanceThresholdPct cfg) 5"

definition minTrade_of :: "ManagerConfig \<Rightarrow> real" where
  "minTrade_of cfg = js_or (minTradeUsd cfg) (1 / 2)"

definition positions ::
  "ManagerConfig \<Rightarrow> PortfolioState \<Rightarrow> (string \<times> real) list
     \<Rightarrow> Overweight list \<times> Underweight list" where
  "positions cfg st targetAllocation =
     findPositions (threshold_of cfg) (minTrade_of cfg) st targetAllocation [] []"

definition calculateRebalanceActions ::
  "ManagerConfig \<Rightarrow> PortfolioState \<Rightarrow> (string \<times> real) list \<Rightarrow> RebalanceAction list" where
  "calculateRebalanceActions cfg st targetAllocation =
     (case positions cfg st targetAllocation of
        (overweight, underweight) \<Rightarrow> matchOverweight (minTrade_of cfg) overweight underweight)"

section \<open>Execution planning (\<open>agent/portfolio-builder.ts\<close>, lines 210-347)\<close>

datatype TradeType = Swap | StockBuy | StockSell

record PlannedTrade =
  trade_type :: TradeType
  fromAsset :: "string option"
  toAsset :: string
  amountUsd :: real
  priority :: real
  reason :: string

record ExecutionPlan =
  strategy :: StrategyDefinition
  currentPortfolio :: Portfolio
  trades :: "PlannedTrade list"
  totalTradeValueUsd :: real
  estimatedFeesUsd :: real
  warnings :: "string list"

record PortfolioBuilderConfig =
  minTradeSize :: real
  maxSlippageBps :: real
  rebalanceThresholdPct :: real
  autoExecute :: bool
  includeStocks :: bool
  dryRun :: bool

definition DEFAULT_CONFIG :: PortfolioBuilderConfig where
  "DEFAULT_CONFIG = \<lparr>minTradeSize = 10, maxSlippageBps = 300, rebalanceThresholdPct = 5,
                      autoExecute = False, includeStocks = False, dryRun = True\<rparr>"

text \<open>The locals \<open>targets\<close>, \<open>current\<close> and \<open>deltas\<close> (lines 222-251).\<close>

definition planTargets :: "StrategyDefinition \<Rightarrow> real \<Rightarrow> Allocations" where
  "planTargets strat totalValue =
     \<lparr>stablecoins = (stablecoins (allocations strat) / 100) * totalValue,
      sol = (sol (allocations strat) / 100) * totalValue,
      otherTokens = (otherTokens (allocations strat) / 100) * totalValue,
      stocks = (stocks (allocations strat) / 100) * totalValue\<rparr>"

definition planCurrent :: "Portfolio \<Rightarrow> Allocations" where
  "planCurrent pf =
     \<lparr>stablecoins = stablecoinValue (tokens pf),
      sol = solValue (tokens pf),
      otherTokens = otherTokenValue (tokens pf),
      stocks = sumStockValueUsd (portfolio_stocks pf)\<rparr>"

definition planDeltas :: "Portfolio \<Rightarrow> StrategyDefinition \<Rightarrow> Allocations" where
  "planDeltas pf strat =
     (let targets = planTargets strat (totalValueUsd pf); current = planCurrent pf in
      \<lparr>stablecoins = stablecoins targets - stablecoins current,
       sol = sol targets - sol current,
       otherTokens = otherTokens targets - otherTokens current,
       stocks = stocks targets - stocks current\<rparr>)"

text \<open>
  The three blocks that push trades (lines 253-324) thread the array \<open>trades\<close> and the
  counter \<open>priority\<close>; \<open>pushTrade\<close> is \<open>trades.push({..., priority: priority++})\<close>.
\<close>

definition pushTrade ::
  "PlannedTrade list \<times> real \<Rightarrow> (real \<Rightarrow> PlannedTrade) \<Rightarrow> PlannedTrade list \<times> real" where
  "pushTrade tp mk = (case tp of (ts, prio) \<Rightarrow> (ts @ [mk prio], prio + 1))"

definition solTrades ::
  "PortfolioBuilderConfig \<Rightarrow> Allocations \<Rightarrow> PlannedTrade list \<times> real
     \<Rightarrow> PlannedTrade list \<times> real" where
  "solTrades cfg deltas tp =
     (if \<bar>sol deltas\<bar> \<ge> minTradeSize cfg then
        (if sol deltas > 0 then
           pushTrade tp (\<lambda>prio. \<lparr>trade_type = Swap, fromAsset = Some COMMON_TOKENS_USDC,
             toAsset = COMMON_TOKENS_SOL, amountUsd = sol deltas, priority = prio,
             reason = ''Increase SOL allocation''\<rparr>)
         else
           pushTrade tp (\<lambda>prio. \<lparr>trade_type = Swap, fromAsset = Some COMMON_TOKENS_SOL,
             toAsset = COMMON_TOKENS_USDC, amountUsd = \<bar>sol deltas\<bar>, priority = prio,
             reason = ''Decrease SOL allocation''\<rparr>))
      else tp)"

definition otherTokensTrades ::
  "PortfolioBuilderConfig \<Rightarrow> Allocations \<Rightarrow> PlannedTrade list \<times> real
     \<Rightarrow> PlannedTrade list \<times> real" where
  "otherTokensTrades cfg deltas tp =
     (if \<bar>otherTokens deltas\<bar> \<ge> minTradeSize cfg then
        (if otherTokens deltas > 0 then
           pushTrade tp (\<lambda>prio. \<lparr>trade_type = Swap, fromAsset = Some COMMON_TOKENS_USDC,
             toAsset = COMMON_TOKENS_WBTC, amountUsd = otherTokens deltas, priority = prio,
             reason = ''Increase other tokens allocation''\<rparr>)
         else
           pushTrade tp (\<lambda>prio. \<lparr>trade_type = Swap, fromAsset = Some COMMON_TOKENS_WBTC,
             toAsset = COMMON_TOKENS_USDC, amountUsd = \<bar>otherTokens deltas\<bar>, priority = prio,
             reason = ''Decrease other tokens allocation''\<rparr>))
      else tp)"

definition stockTrades ::
  "PortfolioBuilderConfig \<Rightarrow> Allocations \<Rightarrow> PlannedTrade list \<times> real
     \<Rightarrow> PlannedTrade list \<times> real" where
  "stockTrades cfg deltas tp =
     (if includeStocks cfg \<and> \<bar>stocks deltas\<bar> \<ge> minTradeSize cfg then
        (if stocks deltas > 0 then
           pushTrade tp (\<lambda>prio. \<lparr>trade_type = StockBuy, fromAsset = None,
             toAsset = ''AAPL'', amountUsd = stocks deltas, priority = prio,
             reason = ''Increase stocks allocation''\<rparr>)
         else
           pushTrade tp (\<lambda>prio. \<lparr>trade_type = StockSell, fromAsset = None,
             toAsset = ''AAPL'', amountUsd = \<bar>stocks deltas\<bar>, priority = prio,
             reason = ''Decrease stocks allocation''\<rparr>))
      else tp)"

definition planTrades ::
  "PortfolioBuilderConfig \<Rightarrow> Portfolio \<Rightarrow> StrategyDefinition \<Rightarrow> PlannedTrade list" where
  "planTrades cfg pf strat =
     (let deltas = planDeltas pf strat in
      fst (stockTrades cfg deltas (otherTokensTrades cfg deltas (solTrades cfg deltas ([], 0)))))"

definition planWarnings ::
  "PortfolioBuilderConfig \<Rightarrow> Portfolio \<Rightarrow> StrategyDefinition \<Rightarrow> string list" where
  "planWarnings cfg pf strat =
     (if \<not> includeStocks cfg \<and> stocks (allocations strat) > 0 then
        [''Stock trading is disabled. Stock allocation target will not be achieved.'']
      else [])
     @ (if totalValueUsd pf < 100 then
          [''Portfolio value is very low. Some trades may not be possible due to minimum sizes.'']
        else [])"

text \<open>
  The body of \<open>createExecutionPlan\<close> after its first two lines, which fetch the
  portfolio and call \<open>analyzeProfile\<close>.
\<close>

definition buildExecutionPlan ::
  "PortfolioBuilderConfig \<Rightarrow> Portfolio \<Rightarrow> StrategyDefinition \<Rightarrow> ExecutionPlan" where
  "buildExecutionPlan cfg pf strat =
     (let ts = planTrades cfg pf strat in
      \<lparr>strategy = strat, currentPortfolio = pf, trades = ts,
       totalTradeValueUsd = foldl (\<lambda>sum t. sum + amountUsd t) 0 ts,
       estimatedFeesUsd = real (length ts) * (1 / 2),
       warnings = planWarnings cfg pf strat\<rparr>)"

section \<open>External services\<close>

text \<open>
  What an \<open>await\<close> can throw: an \<open>Error\<close> with its message, or another value. The
  handlers of the source read it through
  \<open>error instanceof Error ? error.message : 'Unknown error'\<close>.
\<close>

datatype thrown = Error string | NonError

fun thrown_message :: "thrown \<Rightarrow> string" where
  "thrown_message (Error msg) = msg"
| "thrown_message NonError = ''Unknown error''"

record Token =
  token_mint :: string
  token_symbol :: string
  token_name :: string
  decimals :: nat

record TokenPrice =
  price_mint :: string
  price_symbol :: string
  priceUsd :: real

text \<open>
  \<open>SwapParams\<close>; its \<open>amount\<close> is a quotient, \<open>None\<close> when the divisor was 0 and the
  number is not finite.
\<close>

record SwapParams =
  p_inputMint :: string
  p_outputMint :: string
  p_amount :: "real option"
  p_slippageBps :: "real option"
  p_userPublicKey :: string

text \<open>
  \<open>SwapQuote\<close>: \<open>quote_outAmount\<close> is \<open>Number(quote.outAmount)\<close>, taken to be a finite
  number; \<open>quote_raw\<close>, like the instructions and the transactions below, is an opaque
  payload kept as a string.
\<close>

record SwapQuote =
  quote_inAmount :: string
  quote_outAmount :: real
  priceImpactPct :: string
  quote_raw :: string

datatype SwapStatus = SwapSuccess | SwapFailed | SwapPending

record SwapResult =
  signature :: string
  inputMint :: string
  outputMint :: string
  inputAmount :: "real option"
  outputAmount :: real
  swap_status :: SwapStatus
  swap_error :: "string option"

text \<open>
  The calls that leave the process. Each service answers from a state of the outside
  world \<open>'w\<close>, returns the next state, and either throws or returns. \<open>sdk_getPortfolio\<close>
  is \<open>MyfyeSDK.getPortfolio\<close>; \<open>sdk_getTokenPrice\<close> and \<open>market_getToken\<close> are the market
  data client; the others are the methods \<open>executeSwap\<close> calls on the trading client,
  the transaction and the connection. \<open>tx_build\<close> stands for
  \<open>buildSwapTransaction(instructions, new PublicKey(userPublicKey))\<close>, \<open>tx_sign\<close> for
  \<open>transaction.sign([signer])\<close> followed by \<open>transaction.serialize()\<close>;
  \<open>rpc_confirmTransaction\<close> returns \<open>confirmation.value.err\<close>, as JSON text when it is set.
\<close>

record 'w Services =
  sdk_getPortfolio :: "string \<Rightarrow> 'w \<Rightarrow> (thrown + Portfolio) \<times> 'w"
  sdk_getTokenPrice :: "string \<Rightarrow> 'w \<Rightarrow> (thrown + TokenPrice option) \<times> 'w"
  market_getToken :: "string \<Rightarrow> 'w \<Rightarrow> (thrown + Token option) \<times> 'w"
  trading_getSwapQuote :: "SwapParams \<Rightarrow> 'w \<Rightarrow> (thrown + SwapQuote) \<times> 'w"
  trading_getSwapInstructions :: "string \<Rightarrow> string \<Rightarrow> 'w \<Rightarrow> (thrown + string) \<times> 'w"
  tx_build :: "string \<Rightarrow> string \<Rightarrow> 'w \<Rightarrow> (thrown + string) \<times> 'w"
  tx_sign :: "string \<Rightarrow> string \<Rightarrow> 'w \<Rightarrow> (thrown + string) \<times> 'w"
  rpc_sendRawTransaction :: "string \<Rightarrow> 'w \<Rightarrow> (thrown + string) \<times> 'w"
  rpc_confirmTransaction :: "string \<Rightarrow> 'w \<Rightarrow> (thrown + string option) \<times> 'w"

text \<open>
  The state threaded through the program is the outside world and, beside it, the log
  of the calls made so far; the log is what a statement "this call is never made" is
  about.
\<close>

datatype Call =
    CallGetPortfolio string
  | CallGetTokenPrice string
  | CallGetToken string
  | CallGetSwapQuote SwapParams
  | CallGetSwapInstructions string string
  | CallBuildTransaction string string
  | CallSign string string
  | CallSendRawTransaction string
  | CallConfirmTransaction string

record 'w IO =
  world :: 'w
  calls :: "Call list"

definition invoke :: "Call \<Rightarrow> ('w \<Rightarrow> 'r \<times> 'w) \<Rightarrow> 'w IO \<Rightarrow> 'r \<times> 'w IO" where
  "invoke c f s = (case f (world s) of (r, w') \<Rightarrow> (r, \<lparr>world = w', calls = calls s @ [c]\<rparr>))"

text \<open>\<open>await m\<close> followed by the rest \<open>k\<close> of the block; a throw skips the rest.\<close>

definition await ::
  "('s \<Rightarrow> (thrown + 'a) \<times> 's) \<Rightarrow> ('a \<Rightarrow> 's \<Rightarrow> (thrown + 'b) \<times> 's)
     \<Rightarrow> 's \<Rightarrow> (thrown + 'b) \<times> 's" where
  "await m k s = (case m s of (Inl e, s') \<Rightarrow> (Inl e, s') | (Inr a, s') \<Rightarrow> k a s')"

text \<open>The calls of the quote, sign and broadcast pipeline, as opposed to the reads.\<close>

fun isPipelineCall :: "Call \<Rightarrow> bool" where
  "isPipelineCall (CallGetPortfolio _) = False"
| "isPipelineCall (CallGetTokenPrice _) = False"
| "isPipelineCall (CallGetToken _) = False"
| "isPipelineCall _ = True"

section \<open>The swap pipeline (\<open>sdk/trading.ts\<close>, \<open>executeSwap\<close>, lines 227-304)\<close>

text \<open>The \<open>try\<close> block: \<open>Inl\<close> is a throw that reaches the \<open>catch\<close>.\<close>

definition executeSwap_try ::
  "'w Services \<Rightarrow> SwapParams \<Rightarrow> string \<Rightarrow> 'w IO \<Rightarrow> (thrown + SwapResult) \<times> 'w IO" where
  "executeSwap_try sv params signer =
     await (invoke (CallGetToken (p_inputMint params)) (market_getToken sv (p_inputMint params)))
       (\<lambda>inputToken.
     await (invoke (CallGetToken (p_outputMint params)) (market_getToken sv (p_outputMint params)))
       (\<lambda>outputToken.
     case (inputToken, outputToken) of
       (Some _, Some outTok) \<Rightarrow>
         await (invoke (CallGetSwapQuote params) (trading_getSwapQuote sv params))
           (\<lambda>quote.
         await (invoke (CallGetSwapInstructions (quote_raw quote) (p_userPublicKey params))
                  (trading_getSwapInstructions sv (quote_raw quote) (p_userPublicKey params)))
           (\<lambda>instructions.
         await (invoke (CallBuildTransaction instructions (p_userPublicKey params))
                  (tx_build sv instructions (p_userPublicKey params)))
           (\<lambda>transaction.
         await (invoke (CallSign transaction signer) (tx_sign sv transaction signer))
           (\<lambda>signed.
         await (invoke (CallSendRawTransaction signed) (rpc_sendRawTransaction sv signed))
           (\<lambda>sig.
         await (invoke (CallConfirmTransaction sig) (rpc_confirmTransaction sv sig))
           (\<lambda>err s.
              case err of
                Some e \<Rightarrow>
                  (Inr \<lparr>signature = sig, inputMint = p_inputMint params,
                        outputMint = p_outputMint params, inputAmount = p_amount params,
                        outputAmount = 0, swap_status = SwapFailed,
                        swap_error = Some (''Transaction failed: '' @ e)\<rparr>, s)
              | None \<Rightarrow>
                  (Inr \<lparr>signature = sig, inputMint = p_inputMint params,
                        outputMint = p_outputMint params, inputAmount = p_amount params,
                        outputAmount = quote_outAmount quote / 10 ^ decimals outTok,
                        swap_status = SwapSuccess, swap_error = None\<rparr>, s)))))))
     | _ \<Rightarrow> (\<lambda>s. (Inl (Error ''Could not resolve token info''), s))))"

text \<open>\<open>executeSwap\<close>: the \<open>catch\<close> turns every throw into a failed result.\<close>

definition executeSwap ::
  "'w Services \<Rightarrow> SwapParams \<Rightarrow> string \<Rightarrow> 'w IO \<Rightarrow> SwapResult \<times> 'w IO" where
  "executeSwap sv params signer s =
     (case executeSwap_try sv params signer s of
        (Inr r, s') \<Rightarrow> (r, s')
      | (Inl e, s') \<Rightarrow>
          (\<lparr>signature = '''', inputMint = p_inputMint params, outputMint = p_outputMint params,
            inputAmount = p_amount params, outputAmount = 0, swap_status = SwapFailed,
            swap_error = Some (thrown_message e)\<rparr>, s'))"

section \<open>The stages of the pipeline, as the specification lists them\<close>

text \<open>
  The specification (section 4.3 and the propagation policy of section 7) speaks of the
  stages of a swap and of the failure of a stage. \<open>firstStageFailure\<close> is that reading,
  stated apart from \<open>executeSwap\<close> so that the two can be compared: it makes the calls
  of the pipeline in the order of the source (the lookup of the two tokens and the
  assembly of the transaction are stages of their own) and says which stage fails
  first, if any. A stage fails when its call throws; the lookup of the tokens also
  fails when a token is unknown, and the confirmation also fails when the network
  reports an error for the transaction.
\<close>

datatype Stage =
    ResolveTokens | Quote | InstructionFetch | BuildTransaction | Signing | Broadcast
  | Confirmation

datatype StageFailure = Threw Stage thrown | TokenUnresolved | OnChainError string

definition stage ::
  "Stage \<Rightarrow> ('s \<Rightarrow> (thrown + 'a) \<times> 's) \<Rightarrow> ('a \<Rightarrow> 's \<Rightarrow> StageFailure option)
     \<Rightarrow> 's \<Rightarrow> StageFailure option" where
  "stage st m k s = (case m s of (Inl e, s') \<Rightarrow> Some (Threw st e) | (Inr a, s') \<Rightarrow> k a s')"

definition firstStageFailure ::
  "'w Services \<Rightarrow> SwapParams \<Rightarrow> string \<Rightarrow> 'w IO \<Rightarrow> StageFailure option" where
  "firstStageFailure sv params signer =
     stage ResolveTokens
       (invoke (CallGetToken (p_inputMint params)) (market_getToken sv (p_inputMint params)))
       (\<lambda>inputToken.
     stage ResolveTokens
       (invoke (CallGetToken (p_outputMint params)) (market_getToken sv (p_outputMint params)))
       (\<lambda>outputToken.
     if inputToken = None \<or> outputToken = None then (\<lambda>s. Some TokenUnresolved)
     else
     stage Quote (invoke (CallGetSwapQuote params) (trading_getSwapQuote sv params))
       (\<lambda>quote.
     stage InstructionFetch
       (invoke (CallGetSwapInstructions (quote_raw quote) (p_userPublicKey params))
          (trading_getSwapInstructions sv (quote_raw quote) (p_userPublicKey params)))
       (\<lambda>instructions.
     stage BuildTransaction
       (invoke (CallBuildTransaction instructions (p_userPublicKey params))
          (tx_build sv instructions (p_userPublicKey params)))
       (\<lambda>transaction.
     stage Signing (invoke (CallSign transaction signer) (tx_sign sv transaction signer))
       (\<lambda>signed.
     stage Broadcast
       (invoke (CallSendRawTransaction signed) (rpc_sendRawTransaction sv signed))
       (\<lambda>sig.
     stage Confirmation
       (invoke (CallConfirmTransaction sig) (rpc_confirmTransaction sv sig))
       (\<lambda>err s. case err of Some e \<Rightarrow> Some (OnChainError e) | None \<Rightarrow> None))))))))"

text \<open>
  The message that the source makes of each failure: \<open>error.message\<close> of a thrown
  \<open>Error\<close> (\<open>'Unknown error'\<close> for any other thrown value), the message of the
  \<open>Error\<close> thrown for an unknown token, and the text built from
  \<open>confirmation.value.err\<close> (\<open>sdk/trading.ts\<close>, lines 237, 277 and 301).
\<close>

fun failureMessage :: "StageFailure \<Rightarrow> string" where
  "failureMessage (Threw st e) = thrown_message e"
| "failureMessage TokenUnresolved = ''Could not resolve token info''"
| "failureMessage (OnChainError e) = ''Transaction failed: '' @ e"

section \<open>Trade execution (\<open>agent/portfolio-builder.ts\<close>, lines 356-505)\<close>

datatype StepStatus = StepPending | StepExecuting | StepCompleted | StepFailed

record ExecutionStep =
  step_type :: TradeType
  step_asset :: string
  step_amountUsd :: real
  percentage :: "real option"
  step_status :: StepStatus
  step_result :: "SwapResult option"
  step_error :: "string option"

record Summary =
  totalTradesAttempted :: nat
  totalTradesCompleted :: nat
  totalValueTraded :: real
  errors :: "string list"

datatype ResultStatus = ResultSuccess | ResultPartial | ResultFailed

record ExecutionResult =
  status :: ResultStatus
  steps :: "ExecutionStep list"
  summary :: Summary
  portfolio :: "Portfolio option"

text \<open>
  How an asynchronous method of the agent ends without returning: a rejection with the
  thrown value, or, outside what the source can do, the mark that \<open>analyzeProfile\<close>
  produced no finite strategy (lemma \<open>createExecutionPlan_finite\<close>: it never happens).
\<close>

datatype failure = Rejected thrown | NonFiniteStrategy

text \<open>\<open>createExecutionPlan\<close> (lines 210-347).\<close>

definition createExecutionPlan ::
  "PortfolioBuilderConfig \<Rightarrow> 'w Services \<Rightarrow> string \<Rightarrow> UserProfile \<Rightarrow> 'w IO
     \<Rightarrow> (failure + ExecutionPlan) \<times> 'w IO" where
  "createExecutionPlan cfg sv accountAddr profile s =
     (case invoke (CallGetPortfolio accountAddr) (sdk_getPortfolio sv accountAddr) s of
        (Inl e, s1) \<Rightarrow> (Inl (Rejected e), s1)
      | (Inr pf, s1) \<Rightarrow>
          (case analyzeProfile profile of
             None \<Rightarrow> (Inl NonFiniteStrategy, s1)
           | Some strat \<Rightarrow> (Inr (buildExecutionPlan cfg pf strat), s1)))"

text \<open>JavaScript truthiness of an optional string: set and not empty.\<close>

fun truthy :: "string option \<Rightarrow> bool" where
  "truthy None = False"
| "truthy (Some str) = (str \<noteq> [])"

text \<open>\<open>executeSwapTrade\<close> (lines 473-505).\<close>

definition executeSwapTrade ::
  "PortfolioBuilderConfig \<Rightarrow> 'w Services \<Rightarrow> string \<Rightarrow> string \<Rightarrow> string \<Rightarrow> real \<Rightarrow> string
     \<Rightarrow> 'w IO \<Rightarrow> (thrown + SwapResult) \<times> 'w IO" where
  "executeSwapTrade cfg sv accountAddr fromMint toMint amtUsd signer =
     await (invoke (CallGetTokenPrice fromMint) (sdk_getTokenPrice sv fromMint))
       (\<lambda>price s.
          case price of
            None \<Rightarrow>
              (Inr \<lparr>signature = '''', inputMint = fromMint, outputMint = toMint,
                    inputAmount = Some 0, outputAmount = 0, swap_status = SwapFailed,
                    swap_error = Some ''Could not get input token price''\<rparr>, s)
          | Some pr \<Rightarrow>
              (let amt = (if priceUsd pr = 0 then None else Some (amtUsd / priceUsd pr));
                   params = \<lparr>p_inputMint = fromMint, p_outputMint = toMint, p_amount = amt,
                             p_slippageBps = Some (maxSlippageBps cfg),
                             p_userPublicKey = accountAddr\<rparr>
               in case executeSwap sv params signer s of (r, s') \<Rightarrow> (Inr r, s')))"

text \<open>
  The object \<open>params\<close> that \<open>executeSwapTrade\<close> hands to \<open>executeSwap\<close> once the price
  \<open>pr\<close> of the input token is known (lines 494-502), named for the statements about the
  loop.
\<close>

definition executeSwapTrade_params ::
  "PortfolioBuilderConfig \<Rightarrow> string \<Rightarrow> string \<Rightarrow> string \<Rightarrow> real \<Rightarrow> TokenPrice
     \<Rightarrow> SwapParams" where
  "executeSwapTrade_params cfg accountAddr fromMint toMint amtUsd pr =
     \<lparr>p_inputMint = fromMint, p_outputMint = toMint,
      p_amount = (if priceUsd pr = 0 then None else Some (amtUsd / priceUsd pr)),
      p_slippageBps = Some (maxSlippageBps cfg), p_userPublicKey = accountAddr\<rparr>"

text \<open>
  The body of the loop over the sorted trades (lines 409-448). The step is pushed with
  status \<open>executing\<close> and then mutated; the function returns it as it is at the end of
  the iteration, with the array \<open>errors\<close> and the sum \<open>totalValueTraded\<close> as updated.
\<close>

definition executeTrade ::
  "PortfolioBuilderConfig \<Rightarrow> 'w Services \<Rightarrow> string \<Rightarrow> string \<Rightarrow> Portfolio \<Rightarrow> PlannedTrade
     \<Rightarrow> string list \<Rightarrow> real \<Rightarrow> 'w IO \<Rightarrow> (ExecutionStep \<times> string list \<times> real) \<times> 'w IO" where
  "executeTrade cfg sv accountAddr signer pf trade errs traded s =
     (let step = \<lparr>step_type = trade_type trade, step_asset = toAsset trade,
                  step_amountUsd = amountUsd trade,
                  percentage = pctOf (amountUsd trade) (totalValueUsd pf),
                  step_status = StepExecuting, step_result = None, step_error = None\<rparr>
      in if trade_type trade = Swap \<and> truthy (fromAsset trade) then
           (case executeSwapTrade cfg sv accountAddr (the (fromAsset trade)) (toAsset trade)
                   (amountUsd trade) signer s of
              (Inr result, s') \<Rightarrow>
                (let step1 = step\<lparr>step_result := Some result,
                                  step_status := (if swap_status result = SwapSuccess
                                                  then StepCompleted else StepFailed)\<rparr>
                 in if swap_status result = SwapSuccess then
                      ((step1, errs, traded + amountUsd trade), s')
                    else if truthy (swap_error result) then
                      ((step1\<lparr>step_error := swap_error result\<rparr>,
                        errs @ [''swap failed: '' @ the (swap_error result)], traded), s')
                    else ((step1, errs, traded), s'))
            | (Inl e, s') \<Rightarrow>
                ((step\<lparr>step_status := StepFailed, step_error := Some (thrown_message e)\<rparr>,
                  errs @ [''Trade failed: '' @ thrown_message e], traded), s'))
         else if trade_type trade = StockBuy \<or> trade_type trade = StockSell then
           ((step\<lparr>step_status := StepFailed,
                  step_error := Some ''Stock trading not yet implemented''\<rparr>,
             errs @ [''Stock trading not yet implemented''], traded), s)
         else ((step, errs, traded), s))"

text \<open>The loop \<open>for (const trade of sortedTrades)\<close>, with the three locals it updates.\<close>

fun executeTrades ::
  "PortfolioBuilderConfig \<Rightarrow> 'w Services \<Rightarrow> string \<Rightarrow> string \<Rightarrow> Portfolio \<Rightarrow> PlannedTrade list
     \<Rightarrow> ExecutionStep list \<Rightarrow> string list \<Rightarrow> real \<Rightarrow> 'w IO
     \<Rightarrow> (ExecutionStep list \<times> string list \<times> real) \<times> 'w IO" where
  "executeTrades cfg sv accountAddr signer pf [] stps errs traded s = ((stps, errs, traded), s)"
| "executeTrades cfg sv accountAddr signer pf (trade # rest) stps errs traded s =
     (case executeTrade cfg sv accountAddr signer pf trade errs traded s of
        ((step, errs', traded'), s') \<Rightarrow>
          executeTrades cfg sv accountAddr signer pf rest (stps @ [step]) errs' traded' s')"

text \<open>
  The body of \<open>executeAllocation\<close> from the plan on (lines 364-467).
  \<open>[...plan.trades].sort((a, b) => a.priority - b.priority)\<close> is a stable sort by
  priority.
\<close>

definition executePlan ::
  "PortfolioBuilderConfig \<Rightarrow> 'w Services \<Rightarrow> string \<Rightarrow> string \<Rightarrow> ExecutionPlan \<Rightarrow> 'w IO
     \<Rightarrow> (failure + ExecutionResult) \<times> 'w IO" where
  "executePlan cfg sv accountAddr signer plan s =
     (if length (trades plan) = 0 then
        (Inr \<lparr>status = ResultSuccess, steps = [],
              summary = \<lparr>totalTradesAttempted = 0, totalTradesCompleted = 0,
                         totalValueTraded = 0, errors = []\<rparr>,
              portfolio = Some (currentPortfolio plan)\<rparr>, s)
      else if dryRun cfg then
        (Inr \<lparr>status = ResultSuccess,
              steps = map (\<lambda>t. \<lparr>step_type = trade_type t, step_asset = toAsset t,
                                 step_amountUsd = amountUsd t,
                                 percentage = pctOf (amountUsd t)
                                                (totalValueUsd (currentPortfolio plan)),
                                 step_status = StepPending, step_result = None,
                                 step_error = None\<rparr>) (trades plan),
              summary = \<lparr>totalTradesAttempted = length (trades plan),
                         totalTradesCompleted = 0,
                         totalValueTraded = totalTradeValueUsd plan,
                         errors = [''Dry run mode - no trades executed'']\<rparr>,
              portfolio = Some (currentPortfolio plan)\<rparr>, s)
      else
        (let sortedTrades = sort_key priority (trades plan) in
         case executeTrades cfg sv accountAddr signer (currentPortfolio plan) sortedTrades
                [] [] 0 s of
           ((stps, errs, traded), s2) \<Rightarrow>
             (case invoke (CallGetPortfolio accountAddr) (sdk_getPortfolio sv accountAddr) s2 of
                (Inl e, s3) \<Rightarrow> (Inl (Rejected e), s3)
              | (Inr finalPortfolio, s3) \<Rightarrow>
                  (let completedSteps = length (filter (\<lambda>st. step_status st = StepCompleted) stps)
                   in (Inr \<lparr>status = (if completedSteps = length stps then ResultSuccess
                                       else if completedSteps > 0 then ResultPartial
                                       else ResultFailed),
                             steps = stps,
                             summary = \<lparr>totalTradesAttempted = length stps,
                                        totalTradesCompleted = completedSteps,
                                        totalValueTraded = traded, errors = errs\<rparr>,
                             portfolio = Some finalPortfolio\<rparr>, s3)))))"

text \<open>\<open>executeAllocation\<close> (lines 356-468).\<close>

definition executeAllocation ::
  "PortfolioBuilderConfig \<Rightarrow> 'w Services \<Rightarrow> string \<Rightarrow> UserProfile \<Rightarrow> string \<Rightarrow> 'w IO
     \<Rightarrow> (failure + ExecutionResult) \<times> 'w IO" where
  "executeAllocation cfg sv accountAddr profile signer s =
     (case createExecutionPlan cfg sv accountAddr profile s of
        (Inl f, s1) \<Rightarrow> (Inl f, s1)
      | (Inr plan, s1) \<Rightarrow> executePlan cfg sv accountAddr signer plan s1)"

section \<open>A concrete account and concrete services\<close>

text \<open>
  An account worth 1000 USD: 280 in SOL, 270 in USDC and 450 in WBTC, with no stock
  balances; \<open>examplePortfolio\<close> is the portfolio that \<open>getPortfolio\<close> assembles from
  these balances (lemma \<open>examplePortfolio_assembled\<close>). Against the moderate strategy
  (25 / 30 / 15 / 30) its stablecoins are 2 points over and its SOL 2 points under.
\<close>

definition exampleBalances :: "TokenBalance list" where
  "exampleBalances =
     [\<lparr>mint = COMMON_TOKENS_SOL, symbol = ''SOL'', rawBalance = 2000000000,
       balance = 2, valueUsd = 280\<rparr>,
      \<lparr>mint = COMMON_TOKENS_WBTC, symbol = ''WBTC'', rawBalance = 900000,
       balance = 9 / 1000, valueUsd = 450\<rparr>,
      \<lparr>mint = COMMON_TOKENS_USDC, symbol = ''USDC'', rawBalance = 270000000,
       balance = 270, valueUsd = 270\<rparr>]"

definition examplePortfolio :: Portfolio where
  "examplePortfolio =
     \<lparr>accountAddress = ''wallet'', tokens = exampleBalances, portfolio_stocks = [],
      totalValueUsd = 1000,
      allocation = \<lparr>stablecoins = 27, sol = 28, otherTokens = 45, stocks = 0\<rparr>\<rparr>"

definition exampleProfile :: UserProfile where
  "exampleProfile = \<lparr>riskTolerance = Moderate, investmentGoals = [Growth],
                      timeHorizon = Medium, preferredAssets = None, excludedAssets = None,
                      totalInvestment = 1000\<rparr>"

text \<open>
  Services whose world is a counter of the calls answered. Every call returns, except
  the quote for a swap out of WBTC, which throws as the venue's "no route" does.
\<close>

definition exampleServices :: "nat Services" where
  "exampleServices =
     \<lparr>sdk_getPortfolio = (\<lambda>addr w. (Inr examplePortfolio, Suc w)),
      sdk_getTokenPrice = (\<lambda>m w.
        (Inr (Some \<lparr>price_mint = m, price_symbol = ''UNKNOWN'',
                    priceUsd = (if m = COMMON_TOKENS_USDC then 1 else 50000)\<rparr>), Suc w)),
      market_getToken = (\<lambda>m w.
        (Inr (Some \<lparr>token_mint = m, token_symbol = ''TOKEN'', token_name = ''Token'',
                    decimals = 6\<rparr>), Suc w)),
      trading_getSwapQuote = (\<lambda>params w.
        (if p_inputMint params = COMMON_TOKENS_WBTC
         then Inl (Error ''Jupiter quote error: 400 - no route'')
         else Inr \<lparr>quote_inAmount = ''20000000'', quote_outAmount = 140000,
                   priceImpactPct = ''0'', quote_raw = ''quote''\<rparr>, Suc w)),
      trading_getSwapInstructions = (\<lambda>raw user w. (Inr ''instructions'', Suc w)),
      tx_build = (\<lambda>instructions user w. (Inr ''transaction'', Suc w)),
      tx_sign = (\<lambda>transaction signer w. (Inr ''signed'', Suc w)),
      rpc_sendRawTransaction = (\<lambda>signed w. (Inr ''5sig'', Suc w)),
      rpc_confirmTransaction = (\<lambda>sig w. (Inr None, Suc w))\<rparr>"

definition exampleStart :: "nat IO" where
  "exampleStart = \<lparr>world = 0, calls = []\<rparr>"

definition liveConfig :: PortfolioBuilderConfig where
  "liveConfig = DEFAULT_CONFIG\<lparr>dryRun := False\<rparr>"

text \<open>The two trades planned for the account under the moderate strategy.\<close>

definition exampleTrades :: "PlannedTrade list" where
  "exampleTrades =
     [\<lparr>trade_type = Swap, fromAsset = Some COMMON_TOKENS_USDC, toAsset = COMMON_TOKENS_SOL,
       amountUsd = 20, priority = 0, reason = ''Increase SOL allocation''\<rparr>,
      \<lparr>trade_type = Swap, fromAsset = Some COMMON_TOKENS_WBTC, toAsset = COMMON_TOKENS_USDC,
       amountUsd = 300, priority = 1, reason = ''Decrease other tokens allocation''\<rparr>]"

text \<open>What \<open>executeAllocation\<close> returns for the account under the default configuration.\<close>

definition exampleDryRunResult :: ExecutionResult where
  "exampleDryRunResult =
     \<lparr>status = ResultSuccess,
      steps = [\<lparr>step_type = Swap, step_asset = COMMON_TOKENS_SOL, step_amountUsd = 20,
                percentage = Some 2, step_status = StepPending, step_result = None,
                step_error = None\<rparr>,
               \<lparr>step_type = Swap, step_asset = COMMON_TOKENS_USDC, step_amountUsd = 300,
                percentage = Some 30, step_status = StepPending, step_result = None,
                step_error = None\<rparr>],
      summary = \<lparr>totalTradesAttempted = 2, totalTradesCompleted = 0, totalValueTraded = 320,
                 errors = [''Dry run mode - no trades executed'']\<rparr>,
      portfolio = Some examplePortfolio\<rparr>"

text \<open>
  The steps of the same run with \<open>dryRun\<close> off: the first swap settles, the second fails
  at the quote.
\<close>

definition exampleLiveSteps :: "ExecutionStep list" where
  "exampleLiveSteps =
     [\<lparr>step_type = Swap, step_asset = COMMON_TOKENS_SOL, step_amountUsd = 20,
       percentage = Some 2, step_status = StepCompleted,
       step_result = Some \<lparr>signature = ''5sig'', inputMint = COMMON_TOKENS_USDC,
                            outputMint = COMMON_TOKENS_SOL, inputAmount = Some 20,
                            outputAmount = 7 / 50, swap_status = SwapSuccess,
                            swap_error = None\<rparr>,
       step_error = None\<rparr>,
      \<lparr>step_type = Swap, step_asset = COMMON_TOKENS_USDC, step_amountUsd = 300,
       percentage = Some 30, step_status = StepFailed,
       step_result = Some \<lparr>signature = [], inputMint = COMMON_TOKENS_WBTC,
                            outputMint = COMMON_TOKENS_USDC, inputAmount = Some (3 / 500),
                            outputAmount = 0, swap_status = SwapFailed,
                            swap_error = Some ''Jupiter quote error: 400 - no route''\<rparr>,
       step_error = Some ''Jupiter quote error: 400 - no route''\<rparr>]"

definition exampleLiveResult :: ExecutionResult where
  "exampleLiveResult =
     \<lparr>status = ResultPartial, steps = exampleLiveSteps,
      summary = \<lparr>totalTradesAttempted = 2, totalTradesCompleted = 1, totalValueTraded = 20,
                 errors = [''swap failed: Jupiter quote error: 400 - no route'']\<rparr>,
      portfolio = Some examplePortfolio\<rparr>"

text \<open>A manager's state, 72% in SOL against a 50 / 50 target.\<close>

definition exampleManagerConfig :: ManagerConfig where
  "exampleManagerConfig =
     \<lparr>privyAppId = ''app'', privyAppSecret = ''secret'', rpcUrl = None,
      cfg_rebalanceThresholdPct = Some 5, minTradeUsd = Some (1 / 2)\<rparr>"

definition exampleState :: PortfolioState where
  "exampleState =
     \<lparr>state_totalValueUsd = 1000,
      holdings = [\<lparr>h_symbol = ''SOL'', h_mint = TOKENS_SOL, h_amount = 4,
                   h_valueUsd = 720, h_percentage = 72\<rparr>,
                  \<lparr>h_symbol = ''USDC'', h_mint = TOKENS_USDC, h_amount = 280,
                   h_valueUsd = 280, h_percentage = 28\<rparr>]\<rparr>"

text \<open>
  The calls of the run with \<open>dryRun\<close> off: the portfolio read of the planning and the
  first swap, then the second swap up to the quote that throws.
\<close>

definition exampleCallsFirst :: "Call list" where
  "exampleCallsFirst =
     [CallGetPortfolio ''wallet'',
      CallGetTokenPrice COMMON_TOKENS_USDC, CallGetToken COMMON_TOKENS_USDC,
      CallGetToken COMMON_TOKENS_SOL,
      CallGetSwapQuote \<lparr>p_inputMint = COMMON_TOKENS_USDC, p_outputMint = COMMON_TOKENS_SOL,
        p_amount = Some 20, p_slippageBps = Some 300, p_userPublicKey = ''wallet''\<rparr>,
      CallGetSwapInstructions ''quote'' ''wallet'',
      CallBuildTransaction ''instructions'' ''wallet'',
      CallSign ''transaction'' ''signer'', CallSendRawTransaction ''signed'',
      CallConfirmTransaction ''5sig'']"

definition exampleCallsSecond :: "Call list" where
  "exampleCallsSecond =
     [CallGetTokenPrice COMMON_TOKENS_WBTC, CallGetToken COMMON_TOKENS_WBTC,
      CallGetToken COMMON_TOKENS_USDC,
      CallGetSwapQuote \<lparr>p_inputMint = COMMON_TOKENS_WBTC, p_outputMint = COMMON_TOKENS_USDC,
        p_amount = Some (3 / 500), p_slippageBps = Some 300, p_userPublicKey = ''wallet''\<rparr>]"

text \<open>
  The same services, except that the broadcast throws an \<open>Error\<close> whose message is the
  empty string.
\<close>

definition silentServices :: "nat Services" where
  "silentServices =
     exampleServices\<lparr>rpc_sendRawTransaction := (\<lambda>signed w. (Inl (Error []), Suc w))\<rparr>"









text \<open>An entry of a comparison with the deviation \<open>d\<close> from a target of 0.\<close>

definition deviationOf :: "real \<Rightarrow> Comparison" where
  "deviationOf d = \<lparr>assetType = ''otherTokens'', targetPct = 0, actualPct = d, deviationPct = d\<rparr>"

section \<open>Proofs: the rounding to a double\<close>


lemma roundEven_of_int [simp]: "roundEven (of_int k) = k"
  by (simp add: roundEven_def)

lemma roundEven_mono: "x \<le> y \<Longrightarrow> roundEven x \<le> roundEven y"
proof -
  assume xy: "x \<le> y"
  have fx: "\<lfloor>x\<rfloor> \<le> roundEven x" "roundEven x \<le> \<lfloor>x\<rfloor> + 1"
    and fy: "\<lfloor>y\<rfloor> \<le> roundEven y" "roundEven y \<le> \<lfloor>y\<rfloor> + 1"
    by (auto simp: roundEven_def Let_def)
  from xy have "\<lfloor>x\<rfloor> \<le> \<lfloor>y\<rfloor>" by (rule floor_mono)
  then consider "\<lfloor>x\<rfloor> < \<lfloor>y\<rfloor>" | "\<lfloor>x\<rfloor> = \<lfloor>y\<rfloor>" by linarith
  then show ?thesis
  proof cases
    case 1
    with fx fy show ?thesis by linarith
  next
    case 2
    with xy show ?thesis
      by (auto simp: roundEven_def Let_def)
  qed
qed

lemma roundEven_minus: "roundEven (- m) = - roundEven m"
proof (cases "m = of_int \<lfloor>m\<rfloor>")
  case True
  then obtain k where "m = of_int k" ..
  then show ?thesis by (simp flip: of_int_minus)
next
  case False
  then have lt: "of_int \<lfloor>m\<rfloor> < m" by linarith
  have fl: "\<lfloor>- m\<rfloor> = - \<lfloor>m\<rfloor> - 1"
    using lt by (intro floor_unique) (simp_all, linarith+)
  show ?thesis
    unfolding roundEven_def Let_def fl using lt
    by (auto; linarith?)
qed


lemma pow2_le_of_int: "(2::int) ^ b \<le> n \<Longrightarrow> (2::real) ^ b \<le> of_int n"
  by (metis of_int_le_iff of_int_numeral of_int_power)

lemma of_int_le_pow2: "n \<le> (2::int) ^ b \<Longrightarrow> real_of_int n \<le> 2 ^ b"
  by (metis of_int_le_iff of_int_numeral of_int_power)

lemma floorLog2_bounds:
  assumes "0 < x"
  shows "2 powi floorLog2 x \<le> x \<and> x < 2 powi (floorLog2 x + 1)"
proof (cases "1 \<le> x")
  case True
  define n where "n = \<lfloor>x\<rfloor>"
  define b where "b = nat (bitlen n - 1)"
  from True have n: "0 < n" by (simp add: n_def)
  from bitlen_bounds [OF n] have "2 ^ nat (bitlen n - 1) \<le> n" "n < 2 ^ nat (bitlen n)"
    by simp_all
  moreover have "0 < bitlen n"
    using n bitlen_nonneg [of n] bitlen_eq_zero_iff [of n] by linarith
  ultimately have bb: "2 ^ b \<le> n" "n < 2 ^ (b + 1)" and l: "bitlen n - 1 = int b"
    by (simp_all add: b_def nat_diff_distrib' nat_add_distrib)
  have "real_of_int n \<le> x" by (simp add: n_def)
  with pow2_le_of_int [OF bb(1)] have lo: "2 ^ b \<le> x" by linarith
  from bb(2) have "n + 1 \<le> 2 ^ (b + 1)" by simp
  from of_int_le_pow2 [OF this] have "real_of_int (n + 1) \<le> 2 ^ (b + 1)" .
  moreover have "x < real_of_int (n + 1)" unfolding n_def by linarith
  ultimately have hi: "x < 2 ^ (b + 1)" by linarith
  have "floorLog2 x = int b" using True l by (simp add: floorLog2_def n_def)
  with lo hi show ?thesis by (simp add: power_int_add)
next
  case False
  define y where "y = 1 / x"
  define n where "n = \<lceil>y\<rceil> - 1"
  define b where "b = nat (bitlen n)"
  from False assms have y: "1 < y" by (simp add: y_def)
  then have n: "0 < n" unfolding n_def by linarith
  have pos: "0 < bitlen n"
    using n bitlen_nonneg [of n] bitlen_eq_zero_iff [of n] by linarith
  from bitlen_bounds [OF n] pos have bb: "2 ^ (b - 1) \<le> n" "n < 2 ^ b" and b: "0 < b"
    by (simp_all add: b_def nat_diff_distrib')
  have "real_of_int n < y" unfolding n_def by linarith
  with pow2_le_of_int [OF bb(1)] have lo: "2 ^ (b - 1) < y" by linarith
  from bb(2) have "n + 1 \<le> 2 ^ b" by simp
  from of_int_le_pow2 [OF this] have "real_of_int (n + 1) \<le> 2 ^ b" .
  moreover have "y \<le> real_of_int (n + 1)" unfolding n_def by linarith
  ultimately have hi: "y \<le> 2 ^ b" by linarith
  have x: "x = 1 / y" using assms by (simp add: y_def)
  have "1 / (2 ^ b) \<le> x" unfolding x using hi y by (intro divide_left_mono) simp_all
  moreover have "x < 1 / 2 ^ (b - 1)"
    unfolding x using lo y by (intro divide_strict_left_mono) simp_all
  moreover have "floorLog2 x = - int b"
    using False pos by (simp add: floorLog2_def n_def y_def b_def)
  moreover have "(2::real) powi (- int b) = 1 / 2 ^ b" by (simp add: power_int_minus field_simps)
  moreover have "(2::real) powi (- int b + 1) = 1 / 2 ^ (b - 1)"
  proof -
    have "- int b + 1 = - int (b - 1)" using b by simp
    then show ?thesis by (simp only: power_int_minus power_int_of_nat inverse_eq_divide)
  qed
  ultimately show ?thesis by simp
qed

lemma power2_int_less_imp: "(2::real) powi a < 2 powi b \<Longrightarrow> a < b"
  by (metis linorder_not_le one_le_numeral power_int_increasing)

lemma log2_bounds:
  assumes "x \<noteq> 0"
  shows "2 powi floorLog2 \<bar>x\<bar> \<le> \<bar>x\<bar>" and "\<bar>x\<bar> < 2 powi (floorLog2 \<bar>x\<bar> + 1)"
  using floorLog2_bounds [of "\<bar>x\<bar>"] assms by simp_all

lemma floor_log2_eq:
  assumes "2 powi l \<le> \<bar>x\<bar>" and "\<bar>x\<bar> < 2 powi (l + 1)"
  shows "floorLog2 \<bar>x\<bar> = l"
proof -
  have "(0::real) < 2 powi l" by simp
  with assms(1) have nz: "x \<noteq> 0" by linarith
  from log2_bounds(1) [OF nz] assms(2) have "(2::real) powi floorLog2 \<bar>x\<bar> < 2 powi (l + 1)"
    by linarith
  then have "floorLog2 \<bar>x\<bar> < l + 1" by (rule power2_int_less_imp)
  moreover from log2_bounds(2) [OF nz] assms(1)
  have "(2::real) powi l < 2 powi (floorLog2 \<bar>x\<bar> + 1)" by linarith
  then have "l < floorLog2 \<bar>x\<bar> + 1" by (rule power2_int_less_imp)
  ultimately show ?thesis by linarith
qed

lemma floor_log2_mono:
  assumes "x \<noteq> 0" and "\<bar>x\<bar> \<le> \<bar>y\<bar>"
  shows "floorLog2 \<bar>x\<bar> \<le> floorLog2 \<bar>y\<bar>"
proof -
  from assms have nz: "y \<noteq> 0" by auto
  from log2_bounds(1) [OF assms(1)] assms(2) log2_bounds(2) [OF nz]
  have "(2::real) powi floorLog2 \<bar>x\<bar> < 2 powi (floorLog2 \<bar>y\<bar> + 1)" by linarith
  then have "floorLog2 \<bar>x\<bar> < floorLog2 \<bar>y\<bar> + 1" by (rule power2_int_less_imp)
  then show ?thesis by linarith
qed

lemma binary64_exponent_mono:
  "x \<noteq> 0 \<Longrightarrow> \<bar>x\<bar> \<le> \<bar>y\<bar> \<Longrightarrow> binary64_exponent x \<le> binary64_exponent y"
  unfolding binary64_exponent_def using floor_log2_mono [of x y] by simp

lemma binary64_exponent_minus [simp]: "binary64_exponent (- x) = binary64_exponent x"
  by (simp add: binary64_exponent_def)

text \<open>The significand: below \<open>2^53\<close>, and at least \<open>2^52\<close> on normal numbers.\<close>

lemma significand_less:
  assumes "x \<noteq> 0"
  shows "\<bar>x\<bar> / 2 powi binary64_exponent x < 2 ^ 53"
proof -
  let ?l = "floorLog2 \<bar>x\<bar>" and ?e = "binary64_exponent x"
  have "?l + 1 \<le> ?e + 53" by (simp add: binary64_exponent_def)
  then have "(2::real) powi (?l + 1) \<le> 2 powi (?e + 53)"
    by (intro power_int_increasing) simp_all
  with log2_bounds(2) [OF assms] have "\<bar>x\<bar> < 2 powi (?e + 53)" by linarith
  also have "\<dots> = 2 powi ?e * 2 ^ 53" by (simp add: power_int_add)
  finally show ?thesis by (simp add: pos_divide_less_eq mult.commute)
qed

lemma significand_ge:
  assumes "x \<noteq> 0" and "- 1022 \<le> floorLog2 \<bar>x\<bar>"
  shows "2 ^ 52 \<le> \<bar>x\<bar> / 2 powi binary64_exponent x"
proof -
  let ?l = "floorLog2 \<bar>x\<bar>" and ?e = "binary64_exponent x"
  have e: "?l = ?e + 52" using assms(2) by (simp add: binary64_exponent_def)
  have "(2::real) powi (?e + 52) = 2 powi ?e * 2 ^ 52" by (simp add: power_int_add)
  with log2_bounds(1) [OF assms(1)] e have "2 powi ?e * 2 ^ 52 \<le> \<bar>x\<bar>" by simp
  then show ?thesis by (simp add: pos_le_divide_eq mult.commute)
qed

lemma binary64_zero [simp]: "binary64 0 = 0"
  by (simp add: binary64_def)

lemma binary64_minus: "binary64 (- x) = - binary64 x"
proof (cases "x = 0")
  case True
  then show ?thesis by simp
next
  case False
  have "roundEven (- x / 2 powi binary64_exponent x)
          = - roundEven (x / 2 powi binary64_exponent x)"
    using roundEven_minus [of "x / 2 powi binary64_exponent x"] by simp
  with False show ?thesis by (simp add: binary64_def)
qed

lemma roundEven_zero [simp]: "roundEven 0 = 0"
  using roundEven_of_int [of 0] by simp

lemma roundEven_numeral [simp]: "roundEven (numeral n) = numeral n"
  using roundEven_of_int [of "numeral n"] by simp

lemma roundEven_power2 [simp]: "roundEven (2 ^ n) = 2 ^ n"
  using roundEven_of_int [of "2 ^ n"] by simp

lemma binary64_nonneg: "0 \<le> x \<Longrightarrow> 0 \<le> binary64 x"
proof -
  assume "0 \<le> x"
  then have "0 \<le> x / 2 powi binary64_exponent x" by simp
  from roundEven_mono [OF this] have "0 \<le> roundEven (x / 2 powi binary64_exponent x)"
    by simp
  then show ?thesis by (simp add: binary64_def)
qed

text \<open>Monotone on the positive numbers, hence everywhere.\<close>

lemma binary64_le_power:
  assumes "0 < x"
  shows "binary64 x \<le> 2 powi (binary64_exponent x + 53)"
proof -
  let ?e = "binary64_exponent x"
  from assms have nz: "x \<noteq> 0" by simp
  from significand_less [OF nz] assms have "x / 2 powi ?e \<le> 2 ^ 53" by simp
  from roundEven_mono [OF this] have "roundEven (x / 2 powi ?e) \<le> 2 ^ 53" by simp
  then have "real_of_int (roundEven (x / 2 powi ?e)) \<le> 2 ^ 53"
    by (metis of_int_le_iff of_int_numeral of_int_power)
  then have "real_of_int (roundEven (x / 2 powi ?e)) * 2 powi ?e \<le> 2 ^ 53 * 2 powi ?e"
    by (intro mult_right_mono) simp_all
  with nz show ?thesis by (simp add: binary64_def power_int_add mult.commute)
qed

lemma binary64_ge_power:
  assumes "0 < x" and "- 1022 \<le> floorLog2 \<bar>x\<bar>"
  shows "2 powi (binary64_exponent x + 52) \<le> binary64 x"
proof -
  let ?e = "binary64_exponent x"
  from assms have nz: "x \<noteq> 0" by simp
  from significand_ge [OF nz assms(2)] assms(1) have "2 ^ 52 \<le> x / 2 powi ?e" by simp
  from roundEven_mono [OF this] have "2 ^ 52 \<le> roundEven (x / 2 powi ?e)" by simp
  then have "2 ^ 52 \<le> real_of_int (roundEven (x / 2 powi ?e))"
    by (metis of_int_le_iff of_int_numeral of_int_power)
  then have "2 ^ 52 * 2 powi ?e \<le> real_of_int (roundEven (x / 2 powi ?e)) * 2 powi ?e"
    by (intro mult_right_mono) simp_all
  with nz show ?thesis by (simp add: binary64_def power_int_add mult.commute)
qed

lemma binary64_mono_pos:
  assumes "0 < x" and "x \<le> y"
  shows "binary64 x \<le> binary64 y"
proof -
  let ?ex = "binary64_exponent x" and ?ey = "binary64_exponent y"
  from assms have nz: "x \<noteq> 0" "y \<noteq> 0" and y: "0 < y" by simp_all
  from assms have "?ex \<le> ?ey" by (intro binary64_exponent_mono) simp_all
  then consider "?ex = ?ey" | "?ex < ?ey" by linarith
  then show ?thesis
  proof cases
    case 1
    from assms have "x / 2 powi ?ex \<le> y / 2 powi ?ex"
      by (intro divide_right_mono) simp_all
    from roundEven_mono [OF this]
    have "real_of_int (roundEven (x / 2 powi ?ex)) * 2 powi ?ex
            \<le> real_of_int (roundEven (y / 2 powi ?ex)) * 2 powi ?ex"
      by (intro mult_right_mono) simp_all
    with nz 1 show ?thesis by (simp add: binary64_def)
  next
    case 2
    then have n: "- 1022 \<le> floorLog2 \<bar>y\<bar>" and le: "?ex + 53 \<le> ?ey + 52"
      unfolding binary64_exponent_def by linarith+
    from le have "(2::real) powi (?ex + 53) \<le> 2 powi (?ey + 52)"
      by (intro power_int_increasing) simp_all
    with binary64_le_power [OF assms(1)] binary64_ge_power [OF y n] show ?thesis
      by linarith
  qed
qed

lemma binary64_mono: "x \<le> y \<Longrightarrow> binary64 x \<le> binary64 y"
proof -
  assume xy: "x \<le> y"
  consider "0 < x" | "x \<le> 0" "0 \<le> y" | "y < 0" using xy by linarith
  then show ?thesis
  proof cases
    case 1
    from binary64_mono_pos [OF 1 xy] show ?thesis .
  next
    case 2
    from 2(1) have "0 \<le> binary64 (- x)" by (intro binary64_nonneg) simp
    with binary64_nonneg [OF 2(2)] show ?thesis by (simp add: binary64_minus)
  next
    case 3
    with xy have "0 < - y" "- y \<le> - x" by simp_all
    from binary64_mono_pos [OF this] show ?thesis by (simp add: binary64_minus)
  qed
qed


text \<open>Numbers with a significand of at most 53 bits on the grid are left as they are.\<close>

lemma binary64_exact:
  assumes k: "\<bar>k\<bar> < 2 ^ 53" and e: "- 1074 \<le> e"
  shows "binary64 (of_int k * 2 powi e) = of_int k * 2 powi e"
proof (cases "k = 0")
  case True
  then show ?thesis by simp
next
  case False
  define x :: real where "x = of_int k * 2 powi e"
  define ex where "ex = binary64_exponent x"
  let ?l = "floorLog2 \<bar>x\<bar>"
  from False have nz: "x \<noteq> 0" by (simp add: x_def)
  have "\<bar>x\<bar> = real_of_int \<bar>k\<bar> * 2 powi e" by (simp add: x_def abs_mult)
  also have "\<dots> < 2 ^ 53 * 2 powi e"
  proof (intro mult_strict_right_mono)
    from k have "real_of_int \<bar>k\<bar> < real_of_int (2 ^ 53)" by (simp only: of_int_less_iff)
    then show "real_of_int \<bar>k\<bar> < 2 ^ 53" by simp
  qed simp
  also have "\<dots> = 2 powi (e + 53)" by (simp add: power_int_add)
  finally have "\<bar>x\<bar> < 2 powi (e + 53)" .
  with log2_bounds(1) [OF nz] have "(2::real) powi ?l < 2 powi (e + 53)" by linarith
  then have "?l < e + 53"
    by (metis linorder_not_le one_le_numeral power_int_increasing)
  with e have le: "ex \<le> e" by (simp add: ex_def binary64_exponent_def)
  define n where "n = nat (e - ex)"
  from le have en: "e = ex + int n" by (simp add: n_def)
  have pw: "(2::real) powi e = 2 ^ n * 2 powi ex"
    unfolding en by (simp add: power_int_add)
  have xk: "x = real_of_int (k * 2 ^ n) * 2 powi ex"
    unfolding x_def pw by simp
  then have m: "x / 2 powi ex = real_of_int (k * 2 ^ n)"
    by simp
  have "binary64 x = real_of_int (roundEven (x / 2 powi ex)) * 2 powi ex"
    using nz by (simp add: binary64_def ex_def)
  also have "\<dots> = real_of_int (k * 2 ^ n) * 2 powi ex"
    unfolding m roundEven_of_int ..
  also have "\<dots> = x" using xk ..
  finally show ?thesis unfolding x_def .
qed







text \<open>How a rounding is computed once the binade of the number is known.\<close>

lemma binary64_eval:
  assumes "2 powi l \<le> \<bar>x\<bar>" and "\<bar>x\<bar> < 2 powi (l + 1)" and "- 1022 \<le> l"
  shows "binary64 x = of_int (roundEven (x / 2 powi (l - 52))) * 2 powi (l - 52)"
proof -
  have "(0::real) < 2 powi l" by simp
  with assms(1) have nz: "x \<noteq> 0" by linarith
  from floor_log2_eq [OF assms(1,2)] assms(3) have "binary64_exponent x = l - 52"
    by (simp add: binary64_exponent_def)
  with nz show ?thesis by (simp add: binary64_def)
qed

lemma binary64_of_int: "\<bar>k\<bar> < 2 ^ 53 \<Longrightarrow> binary64 (of_int k) = of_int k"
  using binary64_exact [of k 0] by simp

lemma binary64_numeral: "(numeral n :: int) < 2 ^ 53 \<Longrightarrow> binary64 (numeral n) = numeral n"
  using binary64_of_int [of "numeral n"] by simp

section \<open>Proofs: profiles and strategies\<close>

lemmas COMMON_TOKENS_defs =
  COMMON_TOKENS_USDC_def COMMON_TOKENS_USDT_def COMMON_TOKENS_SOL_def
  COMMON_TOKENS_WBTC_def COMMON_TOKENS_WETH_def

lemma adjustTimeHorizon_total:
  "allocationTotal (adjustTimeHorizon h a) = allocationTotal a"
  by (simp add: adjustTimeHorizon_def allocationTotal_def)

lemma adjustGoals_total:
  "allocationTotal (adjustGoals goals a) = allocationTotal a"
  by (simp add: adjustGoals_def allocationTotal_def Let_def)

lemma normalize_defined:
  "allocationTotal a \<noteq> 0 \<Longrightarrow> \<exists>b. normalize a = Some b"
  by (simp add: normalize_def allocationTotal_def Let_def)

lemma normalize_total:
  assumes "normalize a = Some b"
  shows "allocationTotal b = 100"
proof -
  define t where "t = stablecoins a + sol a + otherTokens a + stocks a"
  show ?thesis
  proof (cases "t = 100")
    case True
    with assms show ?thesis by (simp add: normalize_def allocationTotal_def t_def)
  next
    case False
    with assms have nz: "t \<noteq> 0" and
      b: "b = a\<lparr>stablecoins := stablecoins a * (100 / t), sol := sol a * (100 / t),
                otherTokens := otherTokens a * (100 / t), stocks := stocks a * (100 / t)\<rparr>"
      by (auto simp: normalize_def Let_def t_def split: if_splits)
    have "allocationTotal b
            = (stablecoins a + sol a + otherTokens a + stocks a) * (100 / t)"
      by (simp add: b allocationTotal_def distrib_right add_divide_distrib)
    also have "\<dots> = t * (100 / t)" by (simp only: t_def)
    also have "\<dots> = 100" using nz by simp
    finally show ?thesis .
  qed
qed

lemma getStrategy_total: "allocationTotal (allocations (getStrategy r)) = 100"
  by (cases r) (simp_all add: allocationTotal_def conservativeStrategy_def
      moderateStrategy_def aggressiveStrategy_def)



lemma analyzeProfile_defined:
  "\<exists>s. analyzeProfile profile = Some s \<and> allocationTotal (allocations s) = 100"
proof -
  have "allocationTotal (allocations (getStrategy (riskTolerance profile))) = 100"
    by (rule getStrategy_total)
  then obtain b where
    b: "normalize (adjustGoals (investmentGoals profile)
          (adjustTimeHorizon (timeHorizon profile)
             (allocations (getStrategy (riskTolerance profile))))) = Some b"
    using normalize_defined by (metis adjustGoals_total adjustTimeHorizon_total zero_neq_numeral)
  then show ?thesis
    using normalize_total [OF b] by (simp add: analyzeProfile_def adjustStrategyForProfile_def)
qed

text \<open>
  C10: the profile with risk tolerance conservative, time horizon short and the goal
  income gets, from \<open>analyzeProfile\<close>, the allocations 65 / 10 / -5 / 30: the share of
  other tokens is negative, while the four still sum to 100.
\<close>

theorem analyzeProfile_negative_otherTokens:
  "analyzeProfile \<lparr>riskTolerance = Conservative, investmentGoals = [Income],
                   timeHorizon = Short, preferredAssets = None, excludedAssets = None,
                   totalInvestment = 1000\<rparr>
     = Some (conservativeStrategy
              \<lparr>allocations := \<lparr>stablecoins = 65, sol = 10, otherTokens = - 5, stocks = 30\<rparr>\<rparr>)
   \<and> otherTokens \<lparr>stablecoins = 65, sol = 10, otherTokens = - 5, stocks = 30\<rparr> < 0
   \<and> allocationTotal \<lparr>stablecoins = 65, sol = 10, otherTokens = - 5, stocks = 30\<rparr> = 100"
  by (simp add: analyzeProfile_def adjustStrategyForProfile_def normalize_def adjustGoals_def
      adjustTimeHorizon_def conservativeStrategy_def allocationTotal_def)

section \<open>Proofs: drift analysis and health score\<close>

lemma calculateAllocation_total:
  "\<exists>a. calculateAllocation toks stks totalValue = Some a"
  by (simp add: calculateAllocation_def pctOf_def)

text \<open>
  C8: the drift analysis of an account raises no error and yields no number that is not
  finite: \<open>calculateAllocation\<close> returns a finite allocation for every total, the total
  0 included, where it is all zeros (the quotients by the total are not evaluated there);
  so \<open>getPortfolio\<close> assembles a portfolio from every list of balances, and when its
  total value is 0 the current percentage of every category is 0 and the deviation of
  every category is the negation of its target.
\<close>

theorem zero_total_value_drift:
  "calculateAllocation toks stks 0
     = Some \<lparr>stablecoins = 0, sol = 0, otherTokens = 0, stocks = 0\<rparr>
   \<and> (\<exists>p. getPortfolio_assemble addr toks stks = Some p)
   \<and> (\<forall>p. getPortfolio_assemble addr toks stks = Some p \<and> totalValueUsd p = 0
          \<longrightarrow> allocation p = \<lparr>stablecoins = 0, sol = 0, otherTokens = 0, stocks = 0\<rparr>
              \<and> map actualPct (compareToTarget p target) = [0, 0, 0, 0]
              \<and> map deviationPct (compareToTarget p target)
                  = [- stablecoins target, - sol target, - otherTokens target,
                     - stocks target])"
proof -
  have zero: "calculateAllocation toks stks 0
                = Some \<lparr>stablecoins = 0, sol = 0, otherTokens = 0, stocks = 0\<rparr>"
    by (simp add: calculateAllocation_def)
  have tot: "\<exists>p. getPortfolio_assemble addr toks stks = Some p"
    using calculateAllocation_total [of toks stks "sumValueUsd toks + sumStockValueUsd stks"]
    by (auto simp add: getPortfolio_assemble_def Let_def)
  have drift: "allocation p = \<lparr>stablecoins = 0, sol = 0, otherTokens = 0, stocks = 0\<rparr>
               \<and> map actualPct (compareToTarget p target) = [0, 0, 0, 0]
               \<and> map deviationPct (compareToTarget p target)
                   = [- stablecoins target, - sol target, - otherTokens target,
                      - stocks target]"
    if p: "getPortfolio_assemble addr toks stks = Some p" and z: "totalValueUsd p = 0" for p
  proof -
    have a: "allocation p = \<lparr>stablecoins = 0, sol = 0, otherTokens = 0, stocks = 0\<rparr>"
      using p z
      by (auto simp add: getPortfolio_assemble_def Let_def calculateAllocation_def
          split: option.splits if_splits)
    show ?thesis by (simp add: a compareToTarget_def)
  qed
  from zero tot drift show ?thesis by blast
qed

theorem zero_total_value_drift_witness:
  "getPortfolio_assemble ''acct''
      [\<lparr>mint = COMMON_TOKENS_SOL, symbol = ''SOL'', rawBalance = 0, balance = 0, valueUsd = 0\<rparr>]
      []
     = Some \<lparr>accountAddress = ''acct'',
              tokens = [\<lparr>mint = COMMON_TOKENS_SOL, symbol = ''SOL'', rawBalance = 0,
                         balance = 0, valueUsd = 0\<rparr>],
              portfolio_stocks = [], totalValueUsd = 0,
              allocation = \<lparr>stablecoins = 0, sol = 0, otherTokens = 0, stocks = 0\<rparr>\<rparr>
   \<and> map deviationPct (compareToTarget
        \<lparr>accountAddress = ''acct'',
         tokens = [\<lparr>mint = COMMON_TOKENS_SOL, symbol = ''SOL'', rawBalance = 0,
                    balance = 0, valueUsd = 0\<rparr>],
         portfolio_stocks = [], totalValueUsd = 0,
         allocation = \<lparr>stablecoins = 0, sol = 0, otherTokens = 0, stocks = 0\<rparr>\<rparr>
        (allocations moderateStrategy)) = [- 25, - 30, - 15, - 30]"
proof -
  have h: "getPortfolio_assemble ''acct''
      [\<lparr>mint = COMMON_TOKENS_SOL, symbol = ''SOL'', rawBalance = 0, balance = 0, valueUsd = 0\<rparr>]
      []
     = Some \<lparr>accountAddress = ''acct'',
              tokens = [\<lparr>mint = COMMON_TOKENS_SOL, symbol = ''SOL'', rawBalance = 0,
                         balance = 0, valueUsd = 0\<rparr>],
              portfolio_stocks = [], totalValueUsd = 0,
              allocation = \<lparr>stablecoins = 0, sol = 0, otherTokens = 0, stocks = 0\<rparr>\<rparr>"
    by (simp add: getPortfolio_assemble_def sumValueUsd_def sumStockValueUsd_def
        calculateAllocation_def)
  show ?thesis
    using h zero_total_value_drift [of
        "[\<lparr>mint = COMMON_TOKENS_SOL, symbol = ''SOL'', rawBalance = 0, balance = 0,
           valueUsd = 0\<rparr>]" "[]" "''acct''" "allocations moderateStrategy"]
    by (simp add: moderateStrategy_def)
qed

lemma binary64_100: "binary64 100 = 100"
  using binary64_exact [of 100 0] by simp

lemma Math_round_nearest: "\<bar>real_of_int (Math_round x) - x\<bar> \<le> 1 / 2"
  unfolding Math_round_def by linarith

lemma Math_round_mono: "x \<le> y \<Longrightarrow> Math_round x \<le> Math_round y"
  unfolding Math_round_def by (rule floor_mono) simp

lemma foldl_deviation_nonneg:
  "0 \<le> a \<Longrightarrow> 0 \<le> foldl (\<lambda>sum c. binary64 (sum + \<bar>deviationPct c\<bar>)) a cs"
  by (induction cs arbitrary: a) (simp_all add: binary64_nonneg)

lemma totalDeviation_nonneg: "0 \<le> totalDeviation cs"
  unfolding totalDeviation_def by (rule foldl_deviation_nonneg) simp

lemma totalDeviation_zero:
  "\<forall>c\<in>set cs. deviationPct c = 0 \<Longrightarrow> totalDeviation cs = 0"
  unfolding totalDeviation_def by (induction cs) simp_all

text \<open>The double that \<open>Math.round\<close> is applied to, as a function of the computed sum.\<close>

lemma healthValue_antimono:
  "s \<le> t \<Longrightarrow> max 0 (binary64 (100 - binary64 (t / 2)))
              \<le> max 0 (binary64 (100 - binary64 (s / 2)))"
proof -
  assume "s \<le> t"
  then have "binary64 (s / 2) \<le> binary64 (t / 2)" by (intro binary64_mono) simp
  then have "binary64 (100 - binary64 (t / 2)) \<le> binary64 (100 - binary64 (s / 2))"
    by (intro binary64_mono) simp
  then show ?thesis by linarith
qed

lemma healthValue_range:
  "0 \<le> t \<Longrightarrow> 0 \<le> max 0 (binary64 (100 - binary64 (t / 2)))
              \<and> max 0 (binary64 (100 - binary64 (t / 2))) \<le> 100"
proof -
  assume "0 \<le> t"
  then have "0 \<le> binary64 (t / 2)" by (intro binary64_nonneg) simp
  then have "binary64 (100 - binary64 (t / 2)) \<le> binary64 100" by (intro binary64_mono) simp
  then show ?thesis unfolding binary64_100 by simp
qed

text \<open>When no addition of the sum rounds, the computed sum is the exact one.\<close>

lemma totalDeviation_exact:
  assumes "\<forall>n\<le>length cs. binary64 (\<Sum>c\<leftarrow>take n cs. \<bar>deviationPct c\<bar>)
                             = (\<Sum>c\<leftarrow>take n cs. \<bar>deviationPct c\<bar>)"
  shows "totalDeviation cs = (\<Sum>c\<leftarrow>cs. \<bar>deviationPct c\<bar>)"
  using assms
proof (induction cs rule: rev_induct)
  case Nil
  then show ?case by (simp add: totalDeviation_def)
next
  case (snoc x xs)
  have "\<forall>n\<le>length xs. binary64 (\<Sum>c\<leftarrow>take n xs. \<bar>deviationPct c\<bar>)
                             = (\<Sum>c\<leftarrow>take n xs. \<bar>deviationPct c\<bar>)"
  proof (intro allI impI)
    fix n assume n: "n \<le> length xs"
    with snoc.prems [rule_format, of n] show "binary64 (\<Sum>c\<leftarrow>take n xs. \<bar>deviationPct c\<bar>)
                             = (\<Sum>c\<leftarrow>take n xs. \<bar>deviationPct c\<bar>)"
      by simp
  qed
  from snoc.IH [OF this] have ih: "totalDeviation xs = (\<Sum>c\<leftarrow>xs. \<bar>deviationPct c\<bar>)" .
  from snoc.prems [rule_format, of "Suc (length xs)"]
  have last: "binary64 ((\<Sum>c\<leftarrow>xs. \<bar>deviationPct c\<bar>) + \<bar>deviationPct x\<bar>)
                = (\<Sum>c\<leftarrow>xs. \<bar>deviationPct c\<bar>) + \<bar>deviationPct x\<bar>"
    by simp
  have "totalDeviation (xs @ [x]) = binary64 (totalDeviation xs + \<bar>deviationPct x\<bar>)"
    by (simp add: totalDeviation_def)
  with ih last show ?case by simp
qed

text \<open>
  C7 (as amended): the health score is \<open>Math.round\<close> of \<open>max(0, 100 - S / 2)\<close> evaluated
  in double arithmetic, where \<open>S\<close> is the sum of the absolute deviations as the \<open>reduce\<close>
  computes it, from left to right with a rounding after each addition. It is an
  integer from 0 to 100, at most 1/2 away from the double it rounds, exactly 100 when
  every deviation is 0, and it never increases when the computed sum \<open>S\<close> grows. When no
  operation rounds (every partial sum, its half and the difference from 100 are
  doubles), the score is the exact \<open>max(0, 100 - (\<Sum>|deviationPct|) / 2)\<close> rounded to the
  nearest integer.
\<close>

theorem calculateHealthScore_spec:
  "0 \<le> calculateHealthScore cs \<and> calculateHealthScore cs \<le> 100
   \<and> \<bar>real_of_int (calculateHealthScore cs)
        - max 0 (binary64 (100 - binary64 (totalDeviation cs / 2)))\<bar> \<le> 1 / 2
   \<and> ((\<forall>c\<in>set cs. deviationPct c = 0) \<longrightarrow> calculateHealthScore cs = 100)
   \<and> (totalDeviation cs \<le> totalDeviation cs'
        \<longrightarrow> calculateHealthScore cs' \<le> calculateHealthScore cs)
   \<and> ((\<forall>n\<le>length cs. binary64 (\<Sum>c\<leftarrow>take n cs. \<bar>deviationPct c\<bar>)
                           = (\<Sum>c\<leftarrow>take n cs. \<bar>deviationPct c\<bar>))
       \<and> binary64 ((\<Sum>c\<leftarrow>cs. \<bar>deviationPct c\<bar>) / 2) = (\<Sum>c\<leftarrow>cs. \<bar>deviationPct c\<bar>) / 2
       \<and> binary64 (100 - (\<Sum>c\<leftarrow>cs. \<bar>deviationPct c\<bar>) / 2)
           = 100 - (\<Sum>c\<leftarrow>cs. \<bar>deviationPct c\<bar>) / 2
        \<longrightarrow> calculateHealthScore cs
              = Math_round (max 0 (100 - (\<Sum>c\<leftarrow>cs. \<bar>deviationPct c\<bar>) / 2)))"
proof -
  have eq: "calculateHealthScore xs
              = Math_round (max 0 (binary64 (100 - binary64 (totalDeviation xs / 2))))" for xs
    by (simp add: calculateHealthScore_def)
  from healthValue_range [OF totalDeviation_nonneg [of cs]]
  have "Math_round 0 \<le> calculateHealthScore cs" "calculateHealthScore cs \<le> Math_round 100"
    unfolding eq by (auto intro: Math_round_mono)
  then have range: "0 \<le> calculateHealthScore cs" "calculateHealthScore cs \<le> 100"
    by (simp_all add: Math_round_def)
  have near: "\<bar>real_of_int (calculateHealthScore cs)
        - max 0 (binary64 (100 - binary64 (totalDeviation cs / 2)))\<bar> \<le> 1 / 2"
    unfolding eq by (rule Math_round_nearest)
  have zero: "calculateHealthScore cs = 100" if "\<forall>c\<in>set cs. deviationPct c = 0"
    using totalDeviation_zero [OF that]
    by (simp add: calculateHealthScore_def Math_round_def binary64_100)
  have mono: "calculateHealthScore cs' \<le> calculateHealthScore cs"
    if "totalDeviation cs \<le> totalDeviation cs'"
    unfolding eq using that by (intro Math_round_mono healthValue_antimono)
  have exact: "calculateHealthScore cs
              = Math_round (max 0 (100 - (\<Sum>c\<leftarrow>cs. \<bar>deviationPct c\<bar>) / 2))"
    if "\<forall>n\<le>length cs. binary64 (\<Sum>c\<leftarrow>take n cs. \<bar>deviationPct c\<bar>)
                           = (\<Sum>c\<leftarrow>take n cs. \<bar>deviationPct c\<bar>)"
      and "binary64 ((\<Sum>c\<leftarrow>cs. \<bar>deviationPct c\<bar>) / 2) = (\<Sum>c\<leftarrow>cs. \<bar>deviationPct c\<bar>) / 2"
      and "binary64 (100 - (\<Sum>c\<leftarrow>cs. \<bar>deviationPct c\<bar>) / 2)
           = 100 - (\<Sum>c\<leftarrow>cs. \<bar>deviationPct c\<bar>) / 2"
  proof -
    have "calculateHealthScore cs
            = Math_round (max 0 (binary64 (100 - binary64 ((\<Sum>c\<leftarrow>cs. \<bar>deviationPct c\<bar>) / 2))))"
      by (simp add: calculateHealthScore_def totalDeviation_exact [OF that(1)])
    then show ?thesis unfolding that(2) that(3) .
  qed
  from range near zero mono exact show ?thesis by blast
qed

theorem calculateHealthScore_spec_witness:
  "list_all (\<lambda>c. deviationPct c = 0) [deviationOf 0, deviationOf 0, deviationOf 0, deviationOf 0]
   \<and> calculateHealthScore [deviationOf 0, deviationOf 0, deviationOf 0, deviationOf 0] = 100
   \<and> totalDeviation [deviationOf 0, deviationOf 0, deviationOf 0, deviationOf 0]
       \<le> totalDeviation [deviationOf 2, deviationOf (- 2), deviationOf 30, deviationOf (- 30)]
   \<and> calculateHealthScore [deviationOf 2, deviationOf (- 2), deviationOf 30, deviationOf (- 30)]
       \<le> calculateHealthScore [deviationOf 0, deviationOf 0, deviationOf 0, deviationOf 0]
   \<and> list_all
        (\<lambda>n. binary64 (\<Sum>c\<leftarrow>take n [deviationOf 2, deviationOf (- 2), deviationOf 30,
                                        deviationOf (- 30)]. \<bar>deviationPct c\<bar>)
               = (\<Sum>c\<leftarrow>take n [deviationOf 2, deviationOf (- 2), deviationOf 30,
                                 deviationOf (- 30)]. \<bar>deviationPct c\<bar>))
        [0, 1, 2, 3, 4]
   \<and> calculateHealthScore [deviationOf 2, deviationOf (- 2), deviationOf 30, deviationOf (- 30)]
       = 68"
proof -
  let ?Z = "[deviationOf 0, deviationOf 0, deviationOf 0, deviationOf 0]"
  let ?X = "[deviationOf 2, deviationOf (- 2), deviationOf 30, deviationOf (- 30)]"
  have z: "\<forall>c\<in>set ?Z. deviationPct c = 0"
    by (simp add: deviationOf_def)
  have le: "totalDeviation ?Z \<le> totalDeviation ?X"
    using totalDeviation_zero [OF z] totalDeviation_nonneg [of ?X] by simp
  have sums: "list_all
        (\<lambda>n. binary64 (\<Sum>c\<leftarrow>take n ?X. \<bar>deviationPct c\<bar>) = (\<Sum>c\<leftarrow>take n ?X. \<bar>deviationPct c\<bar>))
        [0, 1, 2, 3, 4]"
    by (simp add: deviationOf_def binary64_numeral)
  have each: "\<forall>n\<le>length ?X. binary64 (\<Sum>c\<leftarrow>take n ?X. \<bar>deviationPct c\<bar>)
                                = (\<Sum>c\<leftarrow>take n ?X. \<bar>deviationPct c\<bar>)"
  proof (intro allI impI)
    fix n assume "n \<le> length ?X"
    then have "n \<in> set [0, 1, 2, 3, 4]" by (simp; arith)
    with sums show "binary64 (\<Sum>c\<leftarrow>take n ?X. \<bar>deviationPct c\<bar>)
                      = (\<Sum>c\<leftarrow>take n ?X. \<bar>deviationPct c\<bar>)"
      unfolding list_all_iff by blast
  qed
  have half: "binary64 ((\<Sum>c\<leftarrow>?X. \<bar>deviationPct c\<bar>) / 2) = (\<Sum>c\<leftarrow>?X. \<bar>deviationPct c\<bar>) / 2"
    and diff: "binary64 (100 - (\<Sum>c\<leftarrow>?X. \<bar>deviationPct c\<bar>) / 2)
                 = 100 - (\<Sum>c\<leftarrow>?X. \<bar>deviationPct c\<bar>) / 2"
    by (simp_all add: deviationOf_def binary64_numeral)
  note zero = calculateHealthScore_spec [of ?Z ?X]
  note exact = calculateHealthScore_spec [of ?X ?X]
  from zero z le have a: "calculateHealthScore ?Z = 100"
    "calculateHealthScore ?X \<le> calculateHealthScore ?Z"
    by blast+
  from exact each half diff
  have "calculateHealthScore ?X = Math_round (max 0 (100 - (\<Sum>c\<leftarrow>?X. \<bar>deviationPct c\<bar>) / 2))"
    by blast
  then have b: "calculateHealthScore ?X = 68"
    by (simp add: deviationOf_def Math_round_def)
  from z le a sums b show ?thesis
    unfolding list_all_iff by blast
qed

text \<open>Roundings of the doubles in the examples that follow.\<close>

lemma binary64_1: "binary64 1 = 1"
  using binary64_exact [of 1 0] by simp

lemma binary64_add_tiny: "binary64 (1 + 1 / 2 ^ 53) = 1"
  by (subst binary64_eval [of 0]) (simp_all add: roundEven_def)

lemma binary64_half: "binary64 (1 / 2) = 1 / 2"
  using binary64_exact [of 1 "- 1"] by simp

lemma binary64_199_half: "binary64 (199 / 2) = 199 / 2"
  using binary64_exact [of 199 "- 1"] by simp

lemma binary64_199_up: "binary64 (199 + 3 / 2 ^ 47) = 199 + 1 / 2 ^ 45"
  by (subst binary64_eval [of 7]) (simp_all add: roundEven_def)

lemma binary64_199_above: "binary64 (199 + 1 / 2 ^ 45) = 199 + 1 / 2 ^ 45"
  using binary64_exact [of "199 * 2 ^ 45 + 1" "- 45"] by (simp add: field_simps)

lemma binary64_199_down: "binary64 (199 + 7 / 2 ^ 49) = 199"
  by (subst binary64_eval [of 7]) (simp_all add: roundEven_def)

lemma binary64_199_up_half: "binary64 ((199 + 1 / 2 ^ 45) / 2) = 199 / 2 + 1 / 2 ^ 46"
  using binary64_exact [of "199 * 2 ^ 45 + 1" "- 46"] by (simp add: field_simps)

lemma binary64_below_half: "binary64 (100 - (199 / 2 + 1 / 2 ^ 46)) = 1 / 2 - 1 / 2 ^ 46"
  using binary64_exact [of "2 ^ 45 - 1" "- 46"] by (simp add: field_simps)

text \<open>
  The claim as first stated fails on doubles. For the deviations 1, \<open>2^-53\<close>, 0 and 0 the
  computed sum is 1 and the score 100, while the exact formula gives 99. And of two
  lists of deviations, the one with the larger exact total (100, -99 and twice
  \<open>7 / 2^49\<close>, against 100, -99, \<open>3 / 2^47\<close> and 0) has the larger score, 1 against 0.
\<close>

theorem calculateHealthScore_counterexample:
  "calculateHealthScore [deviationOf 1, deviationOf (1 / 2 ^ 53), deviationOf 0, deviationOf 0]
     = 100
   \<and> Math_round (max 0 (100 - (\<Sum>c\<leftarrow>[deviationOf 1, deviationOf (1 / 2 ^ 53), deviationOf 0,
                                      deviationOf 0]. \<bar>deviationPct c\<bar>) / 2)) = 99
   \<and> (\<Sum>c\<leftarrow>[deviationOf 100, deviationOf (- 99), deviationOf (3 / 2 ^ 47), deviationOf 0].
          \<bar>deviationPct c\<bar>)
       < (\<Sum>c\<leftarrow>[deviationOf 100, deviationOf (- 99), deviationOf (7 / 2 ^ 49),
                 deviationOf (- (7 / 2 ^ 49))]. \<bar>deviationPct c\<bar>)
   \<and> calculateHealthScore
        [deviationOf 100, deviationOf (- 99), deviationOf (3 / 2 ^ 47), deviationOf 0] = 0
   \<and> calculateHealthScore
        [deviationOf 100, deviationOf (- 99), deviationOf (7 / 2 ^ 49),
         deviationOf (- (7 / 2 ^ 49))] = 1"
proof -
  let ?L = "[deviationOf 1, deviationOf (1 / 2 ^ 53), deviationOf 0, deviationOf 0]"
  let ?A = "[deviationOf 100, deviationOf (- 99), deviationOf (3 / 2 ^ 47), deviationOf 0]"
  let ?B = "[deviationOf 100, deviationOf (- 99), deviationOf (7 / 2 ^ 49),
             deviationOf (- (7 / 2 ^ 49))]"
  have ta: "totalDeviation ?L = 1"
  proof -
    have "totalDeviation ?L
            = binary64 (binary64 (binary64 (binary64 (0 + 1) + 1 / 2 ^ 53) + 0) + 0)"
      by (simp add: totalDeviation_def deviationOf_def)
    also have "\<dots> = binary64 (binary64 (binary64 (1 + 1 / 2 ^ 53)))"
      by (simp add: binary64_1)
    also have "\<dots> = binary64 (binary64 1)" by (simp only: binary64_add_tiny)
    also have "\<dots> = 1" by (simp only: binary64_1)
    finally show ?thesis .
  qed
  have "calculateHealthScore ?L = Math_round (max 0 (binary64 (100 - binary64 (1 / 2))))"
    by (simp only: calculateHealthScore_def ta Let_def)
  also have "\<dots> = Math_round (max 0 (binary64 (100 - 1 / 2)))"
    by (simp only: binary64_half)
  also have "\<dots> = Math_round (max 0 (binary64 (199 / 2)))" by simp
  also have "\<dots> = Math_round (max 0 (199 / 2))"
    by (simp only: binary64_199_half)
  also have "\<dots> = 100" by (simp add: Math_round_def)
  finally have a: "calculateHealthScore ?L = 100" .
  have b: "Math_round (max 0 (100 - (\<Sum>c\<leftarrow>?L. \<bar>deviationPct c\<bar>) / 2)) = 99"
    by (simp add: deviationOf_def Math_round_def)
  have tc: "totalDeviation ?A = 199 + 1 / 2 ^ 45"
  proof -
    have "totalDeviation ?A
            = binary64 (binary64 (binary64 (binary64 (0 + 100) + 99) + 3 / 2 ^ 47) + 0)"
      by (simp add: totalDeviation_def deviationOf_def)
    also have "\<dots> = binary64 (binary64 (199 + 3 / 2 ^ 47))"
      by (simp add: binary64_numeral)
    also have "\<dots> = binary64 (199 + 1 / 2 ^ 45)" by (simp only: binary64_199_up)
    also have "\<dots> = 199 + 1 / 2 ^ 45" by (rule binary64_199_above)
    finally show ?thesis .
  qed
  have "calculateHealthScore ?A
          = Math_round (max 0 (binary64 (100 - binary64 ((199 + 1 / 2 ^ 45) / 2))))"
    by (simp only: calculateHealthScore_def tc Let_def)
  also have "\<dots> = Math_round (max 0 (binary64 (100 - (199 / 2 + 1 / 2 ^ 46))))"
    by (simp only: binary64_199_up_half)
  also have "\<dots> = Math_round (max 0 (1 / 2 - 1 / 2 ^ 46))"
    by (simp only: binary64_below_half)
  also have "\<dots> = 0" by (simp add: Math_round_def)
  finally have c: "calculateHealthScore ?A = 0" .
  have td: "totalDeviation ?B = 199"
  proof -
    have "totalDeviation ?B
            = binary64 (binary64 (binary64 (binary64 (0 + 100) + 99) + 7 / 2 ^ 49)
                + 7 / 2 ^ 49)"
      by (simp add: totalDeviation_def deviationOf_def)
    also have "\<dots> = binary64 (binary64 (199 + 7 / 2 ^ 49) + 7 / 2 ^ 49)"
      by (simp add: binary64_numeral)
    also have "\<dots> = 199" by (simp only: binary64_199_down)
    finally show ?thesis .
  qed
  have "calculateHealthScore ?B = Math_round (max 0 (binary64 (100 - binary64 (199 / 2))))"
    by (simp only: calculateHealthScore_def td Let_def)
  also have "\<dots> = Math_round (max 0 (binary64 (100 - 199 / 2)))"
    by (simp only: binary64_199_half)
  also have "\<dots> = Math_round (max 0 (binary64 (1 / 2)))" by simp
  also have "\<dots> = Math_round (max 0 (1 / 2))" by (simp only: binary64_half)
  also have "\<dots> = 1" by (simp add: Math_round_def)
  finally have d: "calculateHealthScore ?B = 1" .
  show ?thesis
    unfolding a b c d by (simp add: deviationOf_def)
qed


section \<open>Proofs: the overweight/underweight matcher\<close>





lemma findPositions_Cons_cases:
  assumes "findPositions th m st ((smb, tgt) # entries) os us = (os', us')"
  obtains
    (over) info :: TokenInfo where
      "m < currentValueUsd st smb - (tgt / 100) * state_totalValueUsd st"
      "th < currentPct st smb - tgt"
      "findPositions th m st entries
         (os @ [\<lparr>o_symbol = smb,
                  excessUsd = currentValueUsd st smb - (tgt / 100) * state_totalValueUsd st,
                  o_mint = info_mint info, o_decimals = info_decimals info\<rparr>]) us = (os', us')"
  | (under) info :: TokenInfo where
      "currentValueUsd st smb - (tgt / 100) * state_totalValueUsd st < - m"
      "th < tgt - currentPct st smb"
      "findPositions th m st entries os
         (us @ [\<lparr>u_symbol = smb,
                  deficitUsd = - (currentValueUsd st smb - (tgt / 100) * state_totalValueUsd st),
                  u_mint = info_mint info\<rparr>]) = (os', us')"
  | (skip) "findPositions th m st entries os us = (os', us')"
proof -
  define diff where "diff = currentValueUsd st smb - (tgt / 100) * state_totalValueUsd st"
  let ?ov = "\<lambda>info::TokenInfo. \<lparr>o_symbol = smb, excessUsd = diff, o_mint = info_mint info,
                       o_decimals = info_decimals info\<rparr>"
  let ?un = "\<lambda>info::TokenInfo. \<lparr>u_symbol = smb, deficitUsd = - diff, u_mint = info_mint info\<rparr>"
  have step: "findPositions th m st ((smb, tgt) # entries) os us =
      (if diff > m \<and> (currentPct st smb - tgt) > th then
         (case TOKEN_INFO smb of
            Some info \<Rightarrow> findPositions th m st entries (os @ [?ov info]) us
          | None \<Rightarrow> findPositions th m st entries os us)
       else if diff < - m \<and> (tgt - currentPct st smb) > th then
         (case TOKEN_INFO smb of
            Some info \<Rightarrow> findPositions th m st entries os (us @ [?un info])
          | None \<Rightarrow> findPositions th m st entries os us)
       else findPositions th m st entries os us)"
    unfolding diff_def by (simp only: findPositions.simps Let_def)
  show ?thesis
    using assms that unfolding step diff_def [symmetric]
    by (auto split: if_splits option.splits)
qed

text \<open>What every emitted action is: its size and its two sides.\<close>

lemma findPositions_selected:
  assumes "findPositions th m st entries os us = (os', us')"
  shows "(\<forall>ov\<in>set os'. ov \<in> set os \<or>
            (m < excessUsd ov \<and>
             (\<exists>tgt. (o_symbol ov, tgt) \<in> set entries \<and> th < currentPct st (o_symbol ov) - tgt)))
       \<and> (\<forall>u\<in>set us'. u \<in> set us \<or>
            (m < deficitUsd u \<and>
             (\<exists>tgt. (u_symbol u, tgt) \<in> set entries \<and> th < tgt - currentPct st (u_symbol u))))"
  using assms
proof (induction entries arbitrary: os us)
  case Nil
  then show ?case by simp
next
  case (Cons e entries)
  obtain smb tgt where e: "e = (smb, tgt)" by (cases e)
  from Cons.prems [unfolded e] show ?case
  proof (cases rule: findPositions_Cons_cases)
    case (over info)
    from Cons.IH [OF over(3)] over(1,2) show ?thesis
      unfolding e by (fastforce)
  next
    case (under info)
    from Cons.IH [OF under(3)] under(1,2) show ?thesis
      unfolding e by (fastforce)
  next
    case skip
    from Cons.IH [OF skip] show ?thesis
      unfolding e by fastforce
  qed
qed

lemma matchUnderweight_actions:
  assumes "matchUnderweight m ovr us = (ovr', us', acts)"
  shows "(\<forall>a\<in>set acts. m \<le> tradeUsd a \<and> fromSymbol a = o_symbol ovr
             \<and> toSymbol a \<in> u_symbol ` set us)
       \<and> o_symbol ovr' = o_symbol ovr \<and> map u_symbol us' = map u_symbol us"
  using assms
proof (induction us arbitrary: ovr ovr' us' acts)
  case Nil
  then show ?case by simp
next
  case (Cons u us)
  show ?case
  proof (cases "excessUsd ovr < m \<or> deficitUsd u < m")
    case True
    obtain o1 r1 a1 where r: "matchUnderweight m ovr us = (o1, r1, a1)"
      by (metis prod_cases3)
    with Cons.prems True have eqs: "ovr' = o1" "us' = u # r1" "acts = a1"
      by auto
    from Cons.IH [OF r] show ?thesis
      unfolding eqs by auto
  next
    case False
    define t where "t = min (excessUsd ovr) (deficitUsd u)"
    obtain o1 r1 a1 where
      r: "matchUnderweight m (ovr\<lparr>excessUsd := binary64 (excessUsd ovr - t)\<rparr>) us
            = (o1, r1, a1)"
      by (metis prod_cases3)
    with Cons.prems False have eqs: "ovr' = o1"
      "us' = u\<lparr>deficitUsd := binary64 (deficitUsd u - t)\<rparr> # r1"
      "\<exists>a. acts = a # a1 \<and> tradeUsd a = t \<and> fromSymbol a = o_symbol ovr
             \<and> toSymbol a = u_symbol u"
      by (auto simp: Let_def t_def)
    from False have "m \<le> t" by (simp add: t_def)
    with Cons.IH [OF r] eqs show ?thesis
      by auto
  qed
qed

lemma matchOverweight_actions:
  "\<forall>a\<in>set (matchOverweight m os us). m \<le> tradeUsd a
      \<and> fromSymbol a \<in> o_symbol ` set os \<and> toSymbol a \<in> u_symbol ` set us"
proof (induction os arbitrary: us)
  case Nil
  then show ?case by simp
next
  case (Cons ov os)
  obtain o1 u1 a1 where r: "matchUnderweight m ov us = (o1, u1, a1)"
    by (metis prod_cases3)
  from matchUnderweight_actions [OF r] have
    a: "\<forall>a\<in>set a1. m \<le> tradeUsd a \<and> fromSymbol a = o_symbol ov \<and> toSymbol a \<in> u_symbol ` set us"
    and u: "map u_symbol u1 = map u_symbol us" by blast+
  from u have "u_symbol ` set u1 = u_symbol ` set us"
    by (metis set_map)
  with Cons.IH [of u1] a show ?case
    by (auto simp: r)
qed

lemma calculateRebalanceActions_sides:
  "\<forall>a\<in>set (calculateRebalanceActions mcfg st targetAllocation).
      minTrade_of mcfg \<le> tradeUsd a
    \<and> (\<exists>tgt. (fromSymbol a, tgt) \<in> set targetAllocation
           \<and> threshold_of mcfg < currentPct st (fromSymbol a) - tgt)
    \<and> (\<exists>tgt. (toSymbol a, tgt) \<in> set targetAllocation
           \<and> threshold_of mcfg < tgt - currentPct st (toSymbol a))"
proof -
  obtain os us where p: "positions mcfg st targetAllocation = (os, us)"
    by (cases "positions mcfg st targetAllocation")
  then have f: "findPositions (threshold_of mcfg) (minTrade_of mcfg) st targetAllocation [] []
               = (os, us)"
    by (simp add: positions_def)
  from findPositions_selected [OF f] have
    sel: "\<forall>ov\<in>set os. \<exists>tgt. (o_symbol ov, tgt) \<in> set targetAllocation
             \<and> threshold_of mcfg < currentPct st (o_symbol ov) - tgt"
         "\<forall>u\<in>set us. \<exists>tgt. (u_symbol u, tgt) \<in> set targetAllocation
             \<and> threshold_of mcfg < tgt - currentPct st (u_symbol u)"
    by simp_all
  have c: "calculateRebalanceActions mcfg st targetAllocation
             = matchOverweight (minTrade_of mcfg) os us"
    by (simp add: calculateRebalanceActions_def p)
  show ?thesis
    unfolding c using matchOverweight_actions [of "minTrade_of mcfg" os us] sel
    by fastforce
qed










section \<open>Proofs: planning and execution\<close>

lemma invoke_calls: "invoke c f s = (r, s') \<Longrightarrow> calls s' = calls s @ [c]"
  by (auto simp: invoke_def split: prod.splits)

lemma createExecutionPlan_Inr:
  assumes "createExecutionPlan cfg sv addr profile s = (Inr plan, s1)"
  shows "\<exists>pf strat. analyzeProfile profile = Some strat
           \<and> plan = buildExecutionPlan cfg pf strat
           \<and> calls s1 = calls s @ [CallGetPortfolio addr]"
proof -
  obtain r s0 where i: "invoke (CallGetPortfolio addr) (sdk_getPortfolio sv addr) s = (r, s0)"
    by (cases "invoke (CallGetPortfolio addr) (sdk_getPortfolio sv addr) s")
  from invoke_calls [OF i] have c: "calls s0 = calls s @ [CallGetPortfolio addr]" .
  from assms i c show ?thesis
    by (auto simp: createExecutionPlan_def split: sum.splits option.splits)
qed

lemma createExecutionPlan_finite:
  "fst (createExecutionPlan cfg sv addr profile s) \<noteq> Inl NonFiniteStrategy"
proof -
  obtain strat where "analyzeProfile profile = Some strat"
    using analyzeProfile_defined by blast
  then show ?thesis
    by (simp add: createExecutionPlan_def split: prod.splits sum.splits)
qed

lemma foldl_amountUsd:
  "foldl (\<lambda>sum t. sum + amountUsd t) a ts = a + (\<Sum>t\<leftarrow>ts. amountUsd t)"
  by (induction ts arbitrary: a) simp_all

lemma buildExecutionPlan_total:
  "totalTradeValueUsd (buildExecutionPlan cfg pf strat)
     = (\<Sum>t\<leftarrow>trades (buildExecutionPlan cfg pf strat). amountUsd t)"
  by (simp add: buildExecutionPlan_def Let_def foldl_amountUsd)

lemma executeTrade_step:
  assumes "executeTrade cfg sv addr signer pf trade errs traded s = ((step, errs', traded'), s')"
  shows "traded' = traded + (if step_status step = StepCompleted then step_amountUsd step else 0)"
    and "step_amountUsd step = amountUsd trade"
    and "step_asset step = toAsset trade"
    and "step_status step \<noteq> StepPending"
    and "\<exists>ne. errs' = errs @ ne"
  using assms
  by (auto simp: executeTrade_def Let_def split: if_splits sum.splits prod.splits)

lemma executeTrades_acc:
  assumes "executeTrades cfg sv addr signer pf ts stps errs traded s
             = ((stps', errs', traded'), s')"
  shows "\<exists>new. stps' = stps @ new \<and> length new = length ts
           \<and> traded' = traded + (\<Sum>st\<leftarrow>filter (\<lambda>st. step_status st = StepCompleted) new.
                                    step_amountUsd st)
           \<and> map step_asset new = map toAsset ts
           \<and> map step_amountUsd new = map amountUsd ts
           \<and> (\<exists>ne. errs' = errs @ ne)"
  using assms
proof (induction ts arbitrary: stps errs traded s)
  case Nil
  then show ?case by simp
next
  case (Cons t ts)
  obtain step e1 t1 s1 where
    one: "executeTrade cfg sv addr signer pf t errs traded s = ((step, e1, t1), s1)"
    by (metis prod_cases3 surj_pair)
  with Cons.prems have
    rest: "executeTrades cfg sv addr signer pf ts (stps @ [step]) e1 t1 s1
             = ((stps', errs', traded'), s')"
    by simp
  from Cons.IH [OF rest] obtain new ne where
    n: "stps' = (stps @ [step]) @ new" "length new = length ts"
       "traded' = t1 + (\<Sum>st\<leftarrow>filter (\<lambda>st. step_status st = StepCompleted) new.
                          step_amountUsd st)"
       "map step_asset new = map toAsset ts" "map step_amountUsd new = map amountUsd ts"
       "errs' = e1 @ ne"
    by blast
  from executeTrade_step [OF one] obtain ne0 where
    o: "t1 = traded + (if step_status step = StepCompleted then step_amountUsd step else 0)"
       "step_amountUsd step = amountUsd t" "step_asset step = toAsset t" "e1 = errs @ ne0"
    by blast
  show ?case
    apply (rule exI [of _ "step # new"])
    using n o by simp
qed

text \<open>The three ways \<open>executeAllocation\<close> returns, read off the result.\<close>

lemma executePlan_result:
  assumes "executePlan cfg sv addr signer plan s = (Inr r, s')"
  shows "totalTradesAttempted (summary r) = length (steps r)
    \<and> totalTradesCompleted (summary r)
           = length (filter (\<lambda>st. step_status st = StepCompleted) (steps r))
    \<and> length (steps r) = length (trades plan)
    \<and> (dryRun cfg \<longrightarrow> status r = ResultSuccess
            \<and> (\<forall>st\<in>set (steps r). step_status st = StepPending)
            \<and> (trades plan \<noteq> [] \<longrightarrow> totalValueTraded (summary r) = totalTradeValueUsd plan)
            \<and> map step_amountUsd (steps r) = map amountUsd (trades plan))
    \<and> (\<not> dryRun cfg \<or> steps r = [] \<longrightarrow>
           status r = (if length (filter (\<lambda>st. step_status st = StepCompleted) (steps r))
                            = length (steps r)
                       then ResultSuccess
                       else if length (filter (\<lambda>st. step_status st = StepCompleted) (steps r)) > 0
                       then ResultPartial else ResultFailed)
           \<and> totalValueTraded (summary r)
               = (\<Sum>st\<leftarrow>filter (\<lambda>st. step_status st = StepCompleted) (steps r).
                    step_amountUsd st))"
proof -
  consider (empty) "trades plan = []" | (dry) "trades plan \<noteq> []" "dryRun cfg"
    | (live) "trades plan \<noteq> []" "\<not> dryRun cfg" by blast
  then show ?thesis
  proof cases
    case empty
    with assms have "r = \<lparr>status = ResultSuccess, steps = [],
              summary = \<lparr>totalTradesAttempted = 0, totalTradesCompleted = 0,
                         totalValueTraded = 0, errors = []\<rparr>,
              portfolio = Some (currentPortfolio plan)\<rparr>"
      by (simp add: executePlan_def)
    then show ?thesis using empty by simp
  next
    case dry
    with assms have r: "r = \<lparr>status = ResultSuccess,
              steps = map (\<lambda>t. \<lparr>step_type = trade_type t, step_asset = toAsset t,
                                 step_amountUsd = amountUsd t,
                                 percentage = pctOf (amountUsd t)
                                                (totalValueUsd (currentPortfolio plan)),
                                 step_status = StepPending, step_result = None,
                                 step_error = None\<rparr>) (trades plan),
              summary = \<lparr>totalTradesAttempted = length (trades plan),
                         totalTradesCompleted = 0,
                         totalValueTraded = totalTradeValueUsd plan,
                         errors = [''Dry run mode - no trades executed'']\<rparr>,
              portfolio = Some (currentPortfolio plan)\<rparr>"
      by (simp add: executePlan_def)
    show ?thesis using dry by (simp add: r comp_def)
  next
    case live
    obtain stps errs traded s2 where
      run: "executeTrades cfg sv addr signer (currentPortfolio plan)
              (sort_key priority (trades plan)) [] [] 0 s = ((stps, errs, traded), s2)"
      by (metis prod_cases3 surj_pair)
    from executeTrades_acc [OF run] have
      acc: "length stps = length (trades plan)"
           "traded = (\<Sum>st\<leftarrow>filter (\<lambda>st. step_status st = StepCompleted) stps.
                        step_amountUsd st)"
      by auto
    from assms live run obtain fp where
      r: "r = \<lparr>status = (if length (filter (\<lambda>st. step_status st = StepCompleted) stps)
                               = length stps
                          then ResultSuccess
                          else if length (filter (\<lambda>st. step_status st = StepCompleted) stps) > 0
                          then ResultPartial else ResultFailed),
                steps = stps,
                summary = \<lparr>totalTradesAttempted = length stps,
                           totalTradesCompleted
                             = length (filter (\<lambda>st. step_status st = StepCompleted) stps),
                           totalValueTraded = traded, errors = errs\<rparr>,
                portfolio = Some fp\<rparr>"
      by (auto simp: executePlan_def Let_def split: prod.splits sum.splits)
    show ?thesis using live acc by (simp add: r)
  qed
qed

lemma executePlan_live:
  assumes "\<not> dryRun cfg" and "trades plan \<noteq> []"
      and "executeTrades cfg sv addr signer (currentPortfolio plan)
             (sort_key priority (trades plan)) [] [] 0 s = ((stps, errs, traded), s2)"
      and "invoke (CallGetPortfolio addr) (sdk_getPortfolio sv addr) s2 = (Inr fp, s3)"
  shows "executePlan cfg sv addr signer plan s
           = (Inr \<lparr>status = (if length (filter (\<lambda>st. step_status st = StepCompleted) stps)
                                    = length stps
                               then ResultSuccess
                               else if length (filter (\<lambda>st. step_status st = StepCompleted) stps) > 0
                               then ResultPartial else ResultFailed),
                     steps = stps,
                     summary = \<lparr>totalTradesAttempted = length stps,
                                totalTradesCompleted
                                  = length (filter (\<lambda>st. step_status st = StepCompleted) stps),
                                totalValueTraded = traded, errors = errs\<rparr>,
                     portfolio = Some fp\<rparr>, s3)"
  using assms by (simp add: executePlan_def Let_def)

section \<open>Proofs: the swap pipeline and the loop over the trades\<close>

lemma executeTrades_append:
  "executeTrades cfg sv addr signer pf (xs @ ys) stps errs traded s
     = (case executeTrades cfg sv addr signer pf xs stps errs traded s of
          ((a, b, c), s1) \<Rightarrow> executeTrades cfg sv addr signer pf ys a b c s1)"
  by (induction xs arbitrary: stps errs traded s) (auto split: prod.splits)

text \<open>The iteration for the trade at position \<open>i\<close>, and where its step ends up.\<close>

lemma executeTrades_nth:
  assumes run: "executeTrades cfg sv addr signer pf ts [] [] 0 s = ((stps, errs, traded), s')"
      and i: "i < length ts"
      and before: "executeTrades cfg sv addr signer pf (take i ts) [] [] 0 s
                     = ((stps0, errs0, traded0), si)"
  shows "\<exists>errs1 traded1 sj. executeTrade cfg sv addr signer pf (ts ! i) errs0 traded0 si
                  = ((stps ! i, errs1, traded1), sj)
              \<and> set errs1 \<subseteq> set errs"
proof -
  obtain step errs1 traded1 sj where
    one: "executeTrade cfg sv addr signer pf (ts ! i) errs0 traded0 si
            = ((step, errs1, traded1), sj)"
    by (metis prod_cases3 surj_pair)
  have split: "ts = take i ts @ (ts ! i) # drop (Suc i) ts"
    using i by (simp add: id_take_nth_drop)
  have "executeTrades cfg sv addr signer pf (take i ts @ (ts ! i) # drop (Suc i) ts) [] [] 0 s
          = executeTrades cfg sv addr signer pf (drop (Suc i) ts) (stps0 @ [step]) errs1 traded1 sj"
    by (simp add: executeTrades_append before one)
  with run split have
    rest: "executeTrades cfg sv addr signer pf (drop (Suc i) ts) (stps0 @ [step]) errs1 traded1 sj
             = ((stps, errs, traded), s')"
    by simp
  from executeTrades_acc [OF before] i have len0: "length stps0 = i"
    by auto
  from executeTrades_acc [OF rest] obtain new ne where
    "stps = (stps0 @ [step]) @ new" "errs = errs1 @ ne" by blast
  with len0 have "stps ! i = step" "set errs1 \<subseteq> set errs"
    by (auto simp: nth_append)
  with one show ?thesis by blast
qed

section \<open>Proofs: the concrete account\<close>

lemma examplePortfolio_assembled:
  "getPortfolio_assemble ''wallet'' exampleBalances [] = Some examplePortfolio"
  by (simp add: examplePortfolio_def exampleBalances_def getPortfolio_assemble_def
      sumValueUsd_def sumStockValueUsd_def calculateAllocation_def pctOf_def
      stablecoinValue_def solValue_def otherTokenValue_def stablecoinMints_def
      COMMON_TOKENS_defs)

lemma examplePortfolio_eq:
  "examplePortfolio =
     \<lparr>accountAddress = ''wallet'',
      tokens = [\<lparr>mint = COMMON_TOKENS_SOL, symbol = ''SOL'', rawBalance = 2000000000,
                 balance = 2, valueUsd = 280\<rparr>,
                \<lparr>mint = COMMON_TOKENS_WBTC, symbol = ''WBTC'', rawBalance = 900000,
                 balance = 9 / 1000, valueUsd = 450\<rparr>,
                \<lparr>mint = COMMON_TOKENS_USDC, symbol = ''USDC'', rawBalance = 270000000,
                 balance = 270, valueUsd = 270\<rparr>],
      portfolio_stocks = [], totalValueUsd = 1000,
      allocation = \<lparr>stablecoins = 27, sol = 28, otherTokens = 45, stocks = 0\<rparr>\<rparr>"
  by (simp add: examplePortfolio_def exampleBalances_def)

lemma exampleProfile_strategy: "analyzeProfile exampleProfile = Some moderateStrategy"
  by (simp add: analyzeProfile_def adjustStrategyForProfile_def normalize_def adjustGoals_def
      adjustTimeHorizon_def exampleProfile_def moderateStrategy_def)

lemma example_planTrades:
  "planTrades DEFAULT_CONFIG examplePortfolio moderateStrategy = exampleTrades"
  "planTrades liveConfig examplePortfolio moderateStrategy = exampleTrades"
  by (simp_all add: planTrades_def planDeltas_def planTargets_def planCurrent_def
      solTrades_def otherTokensTrades_def stockTrades_def pushTrade_def DEFAULT_CONFIG_def
      liveConfig_def moderateStrategy_def examplePortfolio_eq exampleTrades_def
      sumValueUsd_def sumStockValueUsd_def stablecoinValue_def solValue_def
      otherTokenValue_def stablecoinMints_def COMMON_TOKENS_defs Let_def)

lemma example_createExecutionPlan:
  "createExecutionPlan DEFAULT_CONFIG exampleServices ''wallet'' exampleProfile exampleStart
     = (Inr (buildExecutionPlan DEFAULT_CONFIG examplePortfolio moderateStrategy),
        \<lparr>world = 1, calls = [CallGetPortfolio ''wallet'']\<rparr>)"
  "createExecutionPlan liveConfig exampleServices ''wallet'' exampleProfile exampleStart
     = (Inr (buildExecutionPlan liveConfig examplePortfolio moderateStrategy),
        \<lparr>world = 1, calls = [CallGetPortfolio ''wallet'']\<rparr>)"
  by (simp_all add: createExecutionPlan_def invoke_def exampleServices_def exampleStart_def
      exampleProfile_strategy)

lemma example_dryRun:
  "executeAllocation DEFAULT_CONFIG exampleServices ''wallet'' exampleProfile ''signer''
      exampleStart
     = (Inr exampleDryRunResult, \<lparr>world = 1, calls = [CallGetPortfolio ''wallet'']\<rparr>)"
  unfolding executeAllocation_def example_createExecutionPlan buildExecutionPlan_def
    example_planTrades
  by (simp add: executePlan_def exampleTrades_def exampleDryRunResult_def
      DEFAULT_CONFIG_def pctOf_def examplePortfolio_eq)

lemma example_executeTrades:
  "executeTrades liveConfig exampleServices ''wallet'' ''signer'' examplePortfolio exampleTrades
      [] [] 0 \<lparr>world = 1, calls = [CallGetPortfolio ''wallet'']\<rparr>
     = ((exampleLiveSteps, [''swap failed: Jupiter quote error: 400 - no route''], 20),
        \<lparr>world = 14,
         calls = exampleCallsFirst @ exampleCallsSecond\<rparr>)"
  by (simp add: exampleTrades_def executeTrade_def executeSwapTrade_def executeSwap_def
      executeSwap_try_def await_def invoke_def exampleServices_def liveConfig_def
      DEFAULT_CONFIG_def pctOf_def examplePortfolio_eq exampleLiveSteps_def
      exampleCallsFirst_def exampleCallsSecond_def COMMON_TOKENS_defs Let_def)

lemma example_firstTrade:
  "executeTrades liveConfig exampleServices ''wallet'' ''signer'' examplePortfolio
      (take 1 exampleTrades) [] [] 0 \<lparr>world = 1, calls = [CallGetPortfolio ''wallet'']\<rparr>
     = (([exampleLiveSteps ! 0], [], 20), \<lparr>world = 10, calls = exampleCallsFirst\<rparr>)"
  by (simp add: exampleTrades_def executeTrade_def executeSwapTrade_def executeSwap_def
      executeSwap_try_def await_def invoke_def exampleServices_def liveConfig_def
      DEFAULT_CONFIG_def pctOf_def examplePortfolio_eq exampleLiveSteps_def
      exampleCallsFirst_def COMMON_TOKENS_defs Let_def)

lemma example_liveRun:
  "executeAllocation liveConfig exampleServices ''wallet'' exampleProfile ''signer'' exampleStart
     = (Inr exampleLiveResult,
        \<lparr>world = 15,
         calls = exampleCallsFirst @ exampleCallsSecond @ [CallGetPortfolio ''wallet'']\<rparr>)"
proof -
  let ?plan = "\<lparr>strategy = moderateStrategy, currentPortfolio = examplePortfolio,
                trades = exampleTrades,
                totalTradeValueUsd = foldl (\<lambda>sum t. sum + amountUsd t) 0 exampleTrades,
                estimatedFeesUsd = real (length exampleTrades) * (1 / 2),
                warnings = planWarnings liveConfig examplePortfolio moderateStrategy\<rparr>"
  have sorted: "sort_key priority exampleTrades = exampleTrades"
    by (simp add: exampleTrades_def)
  have live: "\<not> dryRun liveConfig"
    by (simp add: liveConfig_def)
  have nonempty: "trades ?plan \<noteq> []"
    by (simp add: exampleTrades_def)
  have run: "executeTrades liveConfig exampleServices ''wallet'' ''signer''
               (currentPortfolio ?plan) (sort_key priority (trades ?plan)) [] [] 0
               \<lparr>world = 1, calls = [CallGetPortfolio ''wallet'']\<rparr>
             = ((exampleLiveSteps, [''swap failed: Jupiter quote error: 400 - no route''], 20),
        \<lparr>world = 14,
         calls = exampleCallsFirst @ exampleCallsSecond\<rparr>)"
    using example_executeTrades by (simp add: sorted)
  have final: "invoke (CallGetPortfolio ''wallet'') (sdk_getPortfolio exampleServices ''wallet'')
        \<lparr>world = 14,
         calls = exampleCallsFirst @ exampleCallsSecond\<rparr>
      = (Inr examplePortfolio,
        \<lparr>world = 15,
         calls = exampleCallsFirst @ exampleCallsSecond @ [CallGetPortfolio ''wallet'']\<rparr>)"
    by (simp add: invoke_def exampleServices_def)
  have r: "\<lparr>status = (if length (filter (\<lambda>st. step_status st = StepCompleted) exampleLiveSteps)
                            = length exampleLiveSteps
                        then ResultSuccess
                        else if length (filter (\<lambda>st. step_status st = StepCompleted)
                                          exampleLiveSteps) > 0
                        then ResultPartial else ResultFailed),
             steps = exampleLiveSteps,
             summary = \<lparr>totalTradesAttempted = length exampleLiveSteps,
                        totalTradesCompleted
                          = length (filter (\<lambda>st. step_status st = StepCompleted) exampleLiveSteps),
                        totalValueTraded = 20,
                        errors = [''swap failed: Jupiter quote error: 400 - no route'']\<rparr>,
             portfolio = Some examplePortfolio\<rparr> = exampleLiveResult"
    by (simp add: exampleLiveResult_def) (simp add: exampleLiveSteps_def)
  show ?thesis
    unfolding executeAllocation_def example_createExecutionPlan buildExecutionPlan_def
      example_planTrades Let_def
    using executePlan_live [OF live nonempty run final] r by simp
qed

section \<open>Proofs: the result of \<open>executeAllocation\<close>\<close>

lemma executeAllocation_Inr:
  assumes "executeAllocation cfg sv addr profile signer s = (Inr r, s')"
  obtains plan s1 where "createExecutionPlan cfg sv addr profile s = (Inr plan, s1)"
    and "executePlan cfg sv addr signer plan s1 = (Inr r, s')"
  using assms by (auto simp: executeAllocation_def split: prod.splits sum.splits)

text \<open>
  C4: with \<open>dryRun\<close> set and a plan that is not empty, \<open>executeAllocation\<close> returns one
  step per planned trade, each with status pending, reports 0 completed trades, and
  makes no call beyond the one portfolio read of the planning: no quote, instruction,
  signing, broadcast or confirmation call.
\<close>

theorem dryRun_returns_pending_without_pipeline:
  assumes "dryRun cfg"
      and "createExecutionPlan cfg sv addr profile s = (Inr plan, s1)"
      and "trades plan \<noteq> []"
  shows "\<exists>r. executeAllocation cfg sv addr profile signer s = (Inr r, s1)
           \<and> length (steps r) = length (trades plan)
           \<and> (\<forall>st\<in>set (steps r). step_status st = StepPending)
           \<and> totalTradesCompleted (summary r) = 0
           \<and> calls s1 = calls s @ [CallGetPortfolio addr]
           \<and> \<not> list_ex isPipelineCall (drop (length (calls s)) (calls s1))"
proof -
  from createExecutionPlan_Inr [OF assms(2)]
  have c: "calls s1 = calls s @ [CallGetPortfolio addr]" by blast
  show ?thesis
    using assms c by (simp add: executeAllocation_def executePlan_def)
qed

theorem dryRun_returns_pending_without_pipeline_witness:
  "dryRun DEFAULT_CONFIG
   \<and> createExecutionPlan DEFAULT_CONFIG exampleServices ''wallet'' exampleProfile exampleStart
       = (Inr (buildExecutionPlan DEFAULT_CONFIG examplePortfolio moderateStrategy),
          \<lparr>world = 1, calls = [CallGetPortfolio ''wallet'']\<rparr>)
   \<and> trades (buildExecutionPlan DEFAULT_CONFIG examplePortfolio moderateStrategy) \<noteq> []
   \<and> (\<exists>r. executeAllocation DEFAULT_CONFIG exampleServices ''wallet'' exampleProfile ''signer''
              exampleStart = (Inr r, \<lparr>world = 1, calls = [CallGetPortfolio ''wallet'']\<rparr>)
          \<and> length (steps r) = 2
          \<and> (\<forall>st\<in>set (steps r). step_status st = StepPending)
          \<and> totalTradesCompleted (summary r) = 0)"
proof -
  have h1: "dryRun DEFAULT_CONFIG" by (simp add: DEFAULT_CONFIG_def)
  note h2 = example_createExecutionPlan(1)
  have t: "trades (buildExecutionPlan DEFAULT_CONFIG examplePortfolio moderateStrategy)
             = exampleTrades"
    by (simp add: buildExecutionPlan_def example_planTrades)
  have h3: "trades (buildExecutionPlan DEFAULT_CONFIG examplePortfolio moderateStrategy) \<noteq> []"
    by (simp add: t exampleTrades_def)
  have l: "length exampleTrades = 2" by (simp add: exampleTrades_def)
  from dryRun_returns_pending_without_pipeline [OF h1 h2 h3, of "''signer''"]
  have "\<exists>r. executeAllocation DEFAULT_CONFIG exampleServices ''wallet'' exampleProfile ''signer''
              exampleStart = (Inr r, \<lparr>world = 1, calls = [CallGetPortfolio ''wallet'']\<rparr>)
          \<and> length (steps r) = 2
          \<and> (\<forall>st\<in>set (steps r). step_status st = StepPending)
          \<and> totalTradesCompleted (summary r) = 0"
    by (auto simp: t l)
  with h1 h2 h3 show ?thesis by blast
qed

text \<open>
  C1, as the code has it: \<open>totalTradesAttempted\<close> is the number of steps; when \<open>dryRun\<close>
  is off, or no step is returned, the status is success exactly when every step is
  completed, failed exactly when none is and at least one was attempted, and partial
  otherwise; when \<open>dryRun\<close> is on the status is success whatever the steps, none of
  which is completed.
\<close>

theorem executeAllocation_status:
  assumes "executeAllocation cfg sv addr profile signer s = (Inr r, s')"
  shows "totalTradesAttempted (summary r) = length (steps r)
    \<and> totalTradesCompleted (summary r)
         = length (filter (\<lambda>st. step_status st = StepCompleted) (steps r))
    \<and> (\<not> dryRun cfg \<or> steps r = [] \<longrightarrow>
          (status r = ResultSuccess
             \<longleftrightarrow> length (filter (\<lambda>st. step_status st = StepCompleted) (steps r))
                   = totalTradesAttempted (summary r))
        \<and> (status r = ResultFailed
             \<longleftrightarrow> length (filter (\<lambda>st. step_status st = StepCompleted) (steps r)) = 0
                   \<and> totalTradesAttempted (summary r) > 0)
        \<and> (status r = ResultPartial
             \<longleftrightarrow> length (filter (\<lambda>st. step_status st = StepCompleted) (steps r))
                   \<noteq> totalTradesAttempted (summary r)
                 \<and> length (filter (\<lambda>st. step_status st = StepCompleted) (steps r)) \<noteq> 0))
    \<and> (dryRun cfg \<longrightarrow> status r = ResultSuccess
          \<and> length (filter (\<lambda>st. step_status st = StepCompleted) (steps r)) = 0)"
proof -
  from assms obtain plan s1 where
    "executePlan cfg sv addr signer plan s1 = (Inr r, s')"
    by (rule executeAllocation_Inr)
  note res = executePlan_result [OF this]
  define c where "c = length (filter (\<lambda>st. step_status st = StepCompleted) (steps r))"
  have a: "totalTradesAttempted (summary r) = length (steps r)"
    and b: "totalTradesCompleted (summary r) = c"
    using res by (simp_all add: c_def)
  have live: "status r = (if c = length (steps r) then ResultSuccess
                          else if c > 0 then ResultPartial else ResultFailed)"
    if "\<not> dryRun cfg \<or> steps r = []"
    using res that unfolding c_def by blast
  have dry: "status r = ResultSuccess \<and> c = 0" if "dryRun cfg"
  proof -
    from res that have "status r = ResultSuccess"
      and p: "\<forall>st\<in>set (steps r). step_status st = StepPending" by blast+
    from p have "filter (\<lambda>st. step_status st = StepCompleted) (steps r) = []"
      by (auto simp: filter_empty_conv)
    with \<open>status r = ResultSuccess\<close> show ?thesis by (simp add: c_def)
  qed
  show ?thesis
    unfolding c_def [symmetric] a b using live dry
    by (auto split: if_splits)
qed

theorem executeAllocation_status_witness:
  "executeAllocation liveConfig exampleServices ''wallet'' exampleProfile ''signer'' exampleStart
     = (Inr exampleLiveResult,
        \<lparr>world = 15,
         calls = exampleCallsFirst @ exampleCallsSecond @ [CallGetPortfolio ''wallet'']\<rparr>)
   \<and> \<not> dryRun liveConfig
   \<and> status exampleLiveResult = ResultPartial
   \<and> length (filter (\<lambda>st. step_status st = StepCompleted) (steps exampleLiveResult)) = 1
   \<and> totalTradesAttempted (summary exampleLiveResult) = 2"
proof -
  have live: "\<not> dryRun liveConfig" by (simp add: liveConfig_def DEFAULT_CONFIG_def)
  have a: "totalTradesAttempted (summary exampleLiveResult) = 2"
    by (simp add: exampleLiveResult_def)
  from executeAllocation_status [OF example_liveRun] live a
  have "status exampleLiveResult = ResultPartial
        \<and> length (filter (\<lambda>st. step_status st = StepCompleted) (steps exampleLiveResult)) = 1"
    by (simp add: exampleLiveResult_def exampleLiveSteps_def)
  with example_liveRun live a show ?thesis by simp
qed

theorem executeAllocation_status_counterexample:
  "fst (executeAllocation DEFAULT_CONFIG exampleServices ''wallet'' exampleProfile ''signer''
          exampleStart) = Inr exampleDryRunResult
   \<and> status exampleDryRunResult = ResultSuccess
   \<and> length (filter (\<lambda>st. step_status st = StepCompleted) (steps exampleDryRunResult)) = 0
   \<and> totalTradesAttempted (summary exampleDryRunResult) = 2
   \<and> \<not> (status exampleDryRunResult = ResultSuccess
          \<longleftrightarrow> length (filter (\<lambda>st. step_status st = StepCompleted) (steps exampleDryRunResult))
                = totalTradesAttempted (summary exampleDryRunResult))"
  by (simp add: example_dryRun) (simp add: exampleDryRunResult_def)

text \<open>
  C5, as the code has it: when \<open>dryRun\<close> is off, or no step is returned,
  \<open>totalValueTraded\<close> is the sum of \<open>amountUsd\<close> over the completed steps; when \<open>dryRun\<close>
  is on it is the sum of \<open>amountUsd\<close> over all the steps of the plan, none of which is
  completed.
\<close>

theorem executeAllocation_totalValueTraded:
  assumes "executeAllocation cfg sv addr profile signer s = (Inr r, s')"
  shows "(\<not> dryRun cfg \<or> steps r = [] \<longrightarrow>
            totalValueTraded (summary r)
              = (\<Sum>st\<leftarrow>filter (\<lambda>st. step_status st = StepCompleted) (steps r). step_amountUsd st))
       \<and> (dryRun cfg \<longrightarrow>
            totalValueTraded (summary r) = (\<Sum>st\<leftarrow>steps r. step_amountUsd st)
            \<and> filter (\<lambda>st. step_status st = StepCompleted) (steps r) = [])"
proof -
  from assms obtain plan s1 where
    p: "createExecutionPlan cfg sv addr profile s = (Inr plan, s1)" and
    e: "executePlan cfg sv addr signer plan s1 = (Inr r, s')"
    by (rule executeAllocation_Inr)
  note res = executePlan_result [OF e]
  from createExecutionPlan_Inr [OF p] obtain pf strat where
    "plan = buildExecutionPlan cfg pf strat" by blast
  then have tot: "totalTradeValueUsd plan = (\<Sum>t\<leftarrow>trades plan. amountUsd t)"
    by (simp add: buildExecutionPlan_total)
  have dry: "totalValueTraded (summary r) = (\<Sum>st\<leftarrow>steps r. step_amountUsd st)
             \<and> filter (\<lambda>st. step_status st = StepCompleted) (steps r) = []" if d: "dryRun cfg"
  proof -
    from res d have m: "map step_amountUsd (steps r) = map amountUsd (trades plan)"
      and pend: "\<forall>st\<in>set (steps r). step_status st = StepPending"
      and len: "length (steps r) = length (trades plan)"
      and v: "trades plan \<noteq> [] \<longrightarrow> totalValueTraded (summary r) = totalTradeValueUsd plan"
      and v0: "steps r = [] \<longrightarrow> totalValueTraded (summary r)
              = (\<Sum>st\<leftarrow>filter (\<lambda>st. step_status st = StepCompleted) (steps r). step_amountUsd st)"
      by blast+
    have f: "filter (\<lambda>st. step_status st = StepCompleted) (steps r) = []"
      using pend by (auto simp: filter_empty_conv)
    have "totalValueTraded (summary r) = (\<Sum>st\<leftarrow>steps r. step_amountUsd st)"
    proof (cases "trades plan = []")
      case True
      with len have "steps r = []" by simp
      with v0 show ?thesis by simp
    next
      case False
      with v tot have "totalValueTraded (summary r) = sum_list (map amountUsd (trades plan))"
        by simp
      with m show ?thesis by simp
    qed
    with f show ?thesis by simp
  qed
  from res dry show ?thesis by blast
qed

theorem executeAllocation_totalValueTraded_witness:
  "executeAllocation liveConfig exampleServices ''wallet'' exampleProfile ''signer'' exampleStart
     = (Inr exampleLiveResult,
        \<lparr>world = 15,
         calls = exampleCallsFirst @ exampleCallsSecond @ [CallGetPortfolio ''wallet'']\<rparr>)
   \<and> \<not> dryRun liveConfig
   \<and> totalValueTraded (summary exampleLiveResult) = 20
   \<and> (\<Sum>st\<leftarrow>filter (\<lambda>st. step_status st = StepCompleted) (steps exampleLiveResult).
          step_amountUsd st) = 20"
proof -
  have live: "\<not> dryRun liveConfig" by (simp add: liveConfig_def DEFAULT_CONFIG_def)
  have v: "totalValueTraded (summary exampleLiveResult) = 20"
    by (simp add: exampleLiveResult_def)
  from executeAllocation_totalValueTraded [OF example_liveRun] live v
  have "(\<Sum>st\<leftarrow>filter (\<lambda>st. step_status st = StepCompleted) (steps exampleLiveResult).
          step_amountUsd st) = 20"
    by simp
  with example_liveRun live v show ?thesis by simp
qed

theorem executeAllocation_totalValueTraded_counterexample:
  "fst (executeAllocation DEFAULT_CONFIG exampleServices ''wallet'' exampleProfile ''signer''
          exampleStart) = Inr exampleDryRunResult
   \<and> totalValueTraded (summary exampleDryRunResult) = 320
   \<and> (\<Sum>st\<leftarrow>filter (\<lambda>st. step_status st = StepCompleted) (steps exampleDryRunResult).
          step_amountUsd st) = 0
   \<and> totalValueTraded (summary exampleDryRunResult)
       \<noteq> (\<Sum>st\<leftarrow>filter (\<lambda>st. step_status st = StepCompleted) (steps exampleDryRunResult).
            step_amountUsd st)"
  by (simp add: example_dryRun) (simp add: exampleDryRunResult_def)

section \<open>Proofs: the planned trades\<close>

lemmas plan_defs = planTrades_def solTrades_def otherTokensTrades_def stockTrades_def
  pushTrade_def Let_def

lemma planTrades_min: "\<forall>t\<in>set (planTrades cfg pf strat). minTradeSize cfg \<le> amountUsd t"
  by (auto simp: plan_defs split: if_splits)

lemma planTrades_sol:
  "(\<exists>t\<in>set (planTrades cfg pf strat).
       toAsset t = COMMON_TOKENS_SOL \<or> fromAsset t = Some COMMON_TOKENS_SOL)
     \<longleftrightarrow> minTradeSize cfg \<le> \<bar>sol (planDeltas pf strat)\<bar>"
  by (auto simp: plan_defs COMMON_TOKENS_defs split: if_splits)

lemma planTrades_otherTokens:
  "(\<exists>t\<in>set (planTrades cfg pf strat).
       toAsset t = COMMON_TOKENS_WBTC \<or> fromAsset t = Some COMMON_TOKENS_WBTC)
     \<longleftrightarrow> minTradeSize cfg \<le> \<bar>otherTokens (planDeltas pf strat)\<bar>"
  by (auto simp: plan_defs COMMON_TOKENS_defs split: if_splits)

lemma planTrades_stocks:
  "(\<exists>t\<in>set (planTrades cfg pf strat). trade_type t \<noteq> Swap)
     \<longleftrightarrow> includeStocks cfg \<and> minTradeSize cfg \<le> \<bar>stocks (planDeltas pf strat)\<bar>"
  by (auto simp: plan_defs split: if_splits)

lemma example_compareToTarget:
  "compareToTarget examplePortfolio (allocations moderateStrategy)
     = [\<lparr>assetType = ''stablecoins'', targetPct = 25, actualPct = 27, deviationPct = 2\<rparr>,
        \<lparr>assetType = ''sol'', targetPct = 30, actualPct = 28, deviationPct = - 2\<rparr>,
        \<lparr>assetType = ''otherTokens'', targetPct = 15, actualPct = 45, deviationPct = 30\<rparr>,
        \<lparr>assetType = ''stocks'', targetPct = 30, actualPct = 0, deviationPct = - 30\<rparr>]"
  by (simp add: compareToTarget_def examplePortfolio_eq moderateStrategy_def)

lemma example_rebalanceActions:
  "map tradeUsd (calculateRebalanceActions exampleManagerConfig exampleState
                   [(''SOL'', 50), (''USDC'', 50)]) = [220]"
  by (simp add: calculateRebalanceActions_def positions_def minTrade_of_def threshold_of_def
      js_or_def currentPct_def currentValueUsd_def TOKEN_INFO_def Let_def
      exampleManagerConfig_def exampleState_def)

text \<open>
  C3, as the code has it: every trade that \<open>createExecutionPlan\<close> emits has
  \<open>amountUsd\<close> at least the configured minimum trade size, and it emits a trade for a
  category (SOL, other tokens, and stocks when \<open>includeStocks\<close> is set) exactly when the
  absolute difference in USD between the category's target and its current value is at
  least that minimum: the rebalance threshold plays no part there. In
  \<open>calculateRebalanceActions\<close> every emitted action has a trade size of at least the
  minimum trade size, sells a position that is over its target by more than the
  threshold and buys one that is under its target by more than the threshold.
\<close>

theorem planned_trades_minimum_size:
  assumes "createExecutionPlan cfg sv addr profile s = (Inr plan, s1)"
  shows "(\<forall>t\<in>set (trades plan). minTradeSize cfg \<le> amountUsd t)
    \<and> ((\<exists>t\<in>set (trades plan).
            toAsset t = COMMON_TOKENS_SOL \<or> fromAsset t = Some COMMON_TOKENS_SOL)
         \<longleftrightarrow> minTradeSize cfg \<le> \<bar>sol (planDeltas (currentPortfolio plan) (strategy plan))\<bar>)
    \<and> ((\<exists>t\<in>set (trades plan).
            toAsset t = COMMON_TOKENS_WBTC \<or> fromAsset t = Some COMMON_TOKENS_WBTC)
         \<longleftrightarrow> minTradeSize cfg
               \<le> \<bar>otherTokens (planDeltas (currentPortfolio plan) (strategy plan))\<bar>)
    \<and> ((\<exists>t\<in>set (trades plan). trade_type t \<noteq> Swap)
         \<longleftrightarrow> includeStocks cfg
             \<and> minTradeSize cfg \<le> \<bar>stocks (planDeltas (currentPortfolio plan) (strategy plan))\<bar>)
    \<and> (\<forall>a\<in>set (calculateRebalanceActions mcfg st targetAllocation).
          minTrade_of mcfg \<le> tradeUsd a
        \<and> (\<exists>tgt. (fromSymbol a, tgt) \<in> set targetAllocation
               \<and> threshold_of mcfg < currentPct st (fromSymbol a) - tgt)
        \<and> (\<exists>tgt. (toSymbol a, tgt) \<in> set targetAllocation
               \<and> threshold_of mcfg < tgt - currentPct st (toSymbol a)))"
proof -
  from createExecutionPlan_Inr [OF assms] obtain pf strat where
    plan: "plan = buildExecutionPlan cfg pf strat" by blast
  have t: "trades plan = planTrades cfg pf strat"
    and c: "currentPortfolio plan = pf" and g: "strategy plan = strat"
    by (simp_all add: plan buildExecutionPlan_def Let_def)
  show ?thesis
    unfolding t c g
    using planTrades_min [of cfg pf strat] planTrades_sol [of cfg pf strat]
      planTrades_otherTokens [of cfg pf strat] planTrades_stocks [of cfg pf strat]
      calculateRebalanceActions_sides [of mcfg st targetAllocation]
    by blast
qed

theorem planned_trades_minimum_size_witness:
  "createExecutionPlan DEFAULT_CONFIG exampleServices ''wallet'' exampleProfile exampleStart
     = (Inr (buildExecutionPlan DEFAULT_CONFIG examplePortfolio moderateStrategy),
        \<lparr>world = 1, calls = [CallGetPortfolio ''wallet'']\<rparr>)
   \<and> map amountUsd (trades (buildExecutionPlan DEFAULT_CONFIG examplePortfolio moderateStrategy))
       = [20, 300]
   \<and> list_all (\<lambda>t. minTradeSize DEFAULT_CONFIG \<le> amountUsd t)
       (trades (buildExecutionPlan DEFAULT_CONFIG examplePortfolio moderateStrategy))
   \<and> map tradeUsd (calculateRebalanceActions exampleManagerConfig exampleState
                     [(''SOL'', 50), (''USDC'', 50)]) = [220]
   \<and> list_all (\<lambda>a. minTrade_of exampleManagerConfig \<le> tradeUsd a)
       (calculateRebalanceActions exampleManagerConfig exampleState
          [(''SOL'', 50), (''USDC'', 50)])"
proof -
  have t: "trades (buildExecutionPlan DEFAULT_CONFIG examplePortfolio moderateStrategy)
             = exampleTrades"
    by (simp add: buildExecutionPlan_def example_planTrades)
  have a: "map amountUsd exampleTrades = [20, 300]"
    by (simp add: exampleTrades_def)
  from planned_trades_minimum_size [OF example_createExecutionPlan(1),
      of exampleManagerConfig exampleState "[(''SOL'', 50), (''USDC'', 50)]"]
  have "list_all (\<lambda>t. minTradeSize DEFAULT_CONFIG \<le> amountUsd t)
          (trades (buildExecutionPlan DEFAULT_CONFIG examplePortfolio moderateStrategy))"
    and "list_all (\<lambda>a. minTrade_of exampleManagerConfig \<le> tradeUsd a)
          (calculateRebalanceActions exampleManagerConfig exampleState
             [(''SOL'', 50), (''USDC'', 50)])"
    unfolding list_all_iff by blast+
  with example_createExecutionPlan(1) example_rebalanceActions a show ?thesis
    by (simp add: t)
qed

theorem planned_trades_threshold_counterexample:
  "fst (createExecutionPlan DEFAULT_CONFIG exampleServices ''wallet'' exampleProfile exampleStart)
     = Inr (buildExecutionPlan DEFAULT_CONFIG examplePortfolio moderateStrategy)
   \<and> trades (buildExecutionPlan DEFAULT_CONFIG examplePortfolio moderateStrategy)
       = [\<lparr>trade_type = Swap, fromAsset = Some COMMON_TOKENS_USDC, toAsset = COMMON_TOKENS_SOL,
           amountUsd = 20, priority = 0, reason = ''Increase SOL allocation''\<rparr>,
          \<lparr>trade_type = Swap, fromAsset = Some COMMON_TOKENS_WBTC,
           toAsset = COMMON_TOKENS_USDC, amountUsd = 300, priority = 1,
           reason = ''Decrease other tokens allocation''\<rparr>]
   \<and> map assetType (compareToTarget examplePortfolio (allocations moderateStrategy))
       = [''stablecoins'', ''sol'', ''otherTokens'', ''stocks'']
   \<and> map deviationPct (compareToTarget examplePortfolio (allocations moderateStrategy))
       = [2, - 2, 30, - 30]
   \<and> rebalanceThresholdPct DEFAULT_CONFIG = 5
   \<and> \<not> (rebalanceThresholdPct DEFAULT_CONFIG
           < \<bar>deviationPct (compareToTarget examplePortfolio (allocations moderateStrategy) ! 0)\<bar>
        \<or> rebalanceThresholdPct DEFAULT_CONFIG
           < \<bar>deviationPct (compareToTarget examplePortfolio (allocations moderateStrategy) ! 1)\<bar>)"
proof -
  have t: "trades (buildExecutionPlan DEFAULT_CONFIG examplePortfolio moderateStrategy)
             = exampleTrades"
    by (simp add: buildExecutionPlan_def example_planTrades)
  show ?thesis
    by (simp add: example_createExecutionPlan(1) t example_compareToTarget)
       (simp add: exampleTrades_def DEFAULT_CONFIG_def)
qed

section \<open>Proofs: failures inside the loop\<close>

text \<open>
  \<open>executeSwap\<close> against the stages of the specification: it reports success exactly
  when no stage fails, and otherwise a failed result whose error is the message of the
  first failure.
\<close>

lemma executeSwap_stages:
  "firstStageFailure sv params signer s = None \<Longrightarrow>
     swap_status (fst (executeSwap sv params signer s)) = SwapSuccess
     \<and> swap_error (fst (executeSwap sv params signer s)) = None"
  "firstStageFailure sv params signer s = Some f \<Longrightarrow>
     swap_status (fst (executeSwap sv params signer s)) = SwapFailed
     \<and> swap_error (fst (executeSwap sv params signer s)) = Some (failureMessage f)"
  by (auto simp: executeSwap_def executeSwap_try_def firstStageFailure_def stage_def await_def
      split: prod.splits sum.splits option.splits if_splits)

lemma executeSwapTrade_priced:
  assumes "invoke (CallGetTokenPrice fromMint) (sdk_getTokenPrice sv fromMint) s
             = (Inr (Some pr), sp)"
  shows "executeSwapTrade cfg sv addr fromMint toMint amt signer s
           = (Inr (fst (executeSwap sv (executeSwapTrade_params cfg addr fromMint toMint amt pr)
                          signer sp)),
              snd (executeSwap sv (executeSwapTrade_params cfg addr fromMint toMint amt pr)
                     signer sp))"
  using assms
  by (simp add: executeSwapTrade_def await_def Let_def executeSwapTrade_params_def
      split: prod.splits)

lemma executeSwapTrade_unpriced:
  assumes "invoke (CallGetTokenPrice fromMint) (sdk_getTokenPrice sv fromMint) s
             = (Inr None, sp)"
  shows "executeSwapTrade cfg sv addr fromMint toMint amt signer s
           = (Inr \<lparr>signature = [], inputMint = fromMint, outputMint = toMint,
                    inputAmount = Some 0, outputAmount = 0, swap_status = SwapFailed,
                    swap_error = Some ''Could not get input token price''\<rparr>, sp)"
  using assms by (simp add: executeSwapTrade_def await_def)

lemma executeSwapTrade_rejected:
  assumes "invoke (CallGetTokenPrice fromMint) (sdk_getTokenPrice sv fromMint) s
             = (Inl e, sp)"
  shows "executeSwapTrade cfg sv addr fromMint toMint amt signer s = (Inl e, sp)"
  using assms by (simp add: executeSwapTrade_def await_def)

text \<open>One iteration of the loop for a swap trade, read against the stages.\<close>

lemma executeTrade_stages:
  assumes sw: "trade_type trade = Swap" "truthy (fromAsset trade)"
      and one: "executeTrade cfg sv addr signer pf trade errs traded s
                  = ((step, errs', traded'), s')"
  shows "case invoke (CallGetTokenPrice (the (fromAsset trade)))
                (sdk_getTokenPrice sv (the (fromAsset trade))) s of
           (Inl e, sp) \<Rightarrow>
             step_status step = StepFailed \<and> step_error step = Some (thrown_message e)
             \<and> errs' = errs @ [''Trade failed: '' @ thrown_message e]
         | (Inr None, sp) \<Rightarrow>
             step_status step = StepFailed
             \<and> step_error step = Some ''Could not get input token price''
             \<and> errs' = errs @ [''swap failed: Could not get input token price'']
         | (Inr (Some pr), sp) \<Rightarrow>
             (case firstStageFailure sv
                     (executeSwapTrade_params cfg addr (the (fromAsset trade)) (toAsset trade)
                        (amountUsd trade) pr) signer sp of
                None \<Rightarrow>
                  step_status step = StepCompleted \<and> step_error step = None \<and> errs' = errs
              | Some f \<Rightarrow>
                  step_status step = StepFailed
                  \<and> (if failureMessage f = [] then step_error step = None \<and> errs' = errs
                      else step_error step = Some (failureMessage f)
                           \<and> errs' = errs @ [''swap failed: '' @ failureMessage f]))"
proof -
  obtain r sp where pr: "invoke (CallGetTokenPrice (the (fromAsset trade)))
                (sdk_getTokenPrice sv (the (fromAsset trade))) s = (r, sp)"
    by (cases "invoke (CallGetTokenPrice (the (fromAsset trade)))
                (sdk_getTokenPrice sv (the (fromAsset trade))) s")
  show ?thesis
  proof (cases r)
    case (Inl e)
    from executeSwapTrade_rejected [OF pr [unfolded Inl]] one sw show ?thesis
      by (auto simp add: pr Inl executeTrade_def Let_def)
  next
    case (Inr price)
    show ?thesis
    proof (cases price)
      case None
      from executeSwapTrade_unpriced [OF pr [unfolded Inr None]] one sw show ?thesis
        by (auto simp add: pr Inr None executeTrade_def Let_def)
    next
      case (Some p)
      let ?params = "executeSwapTrade_params cfg addr (the (fromAsset trade)) (toAsset trade)
                        (amountUsd trade) p"
      note sw_eq = executeSwapTrade_priced [OF pr [unfolded Inr Some], of cfg addr
          "toAsset trade" "amountUsd trade" signer]
      show ?thesis
      proof (cases "firstStageFailure sv ?params signer sp")
        case None
        from executeSwap_stages(1) [OF None] sw_eq one sw show ?thesis
          by (auto simp add: pr Inr Some None executeTrade_def Let_def)
      next
        case (Some f)
        from executeSwap_stages(2) [OF Some] sw_eq one sw show ?thesis
          by (auto simp add: pr Inr \<open>price = Some p\<close> Some executeTrade_def Let_def)
      qed
    qed
  qed
qed

text \<open>
  C2 (as amended): the loop over the trades of a plan returns one step per trade, in
  order, whatever happened to each of them: no failure leaves the loop and no trade is
  skipped. For a swap trade at any position, take the state in which its iteration
  starts. If the price read that precedes the pipeline throws or finds no price, the
  step is failed and carries the message. Otherwise the pipeline runs on the parameters
  built from the price: if no stage fails the step is completed; if a stage fails
  (a call that throws, an unknown token, a transaction that the network reports as
  failed) the step has status failed, and the message of that failure is the step's
  error and an entry of the error list, provided the message is not the empty string;
  for an empty message the step has no error.
\<close>

theorem pipeline_failures_recorded:
  assumes "executeTrades cfg sv addr signer pf ts [] [] 0 s = ((stps, errs, traded), s')"
  shows "length stps = length ts \<and> map step_asset stps = map toAsset ts
    \<and> (\<forall>i stps0 errs0 traded0 si.
          i < length ts \<and> trade_type (ts ! i) = Swap \<and> truthy (fromAsset (ts ! i))
          \<and> executeTrades cfg sv addr signer pf (take i ts) [] [] 0 s
               = ((stps0, errs0, traded0), si)
          \<longrightarrow> (case invoke (CallGetTokenPrice (the (fromAsset (ts ! i))))
                       (sdk_getTokenPrice sv (the (fromAsset (ts ! i)))) si of
                 (Inl e, sp) \<Rightarrow>
                   step_status (stps ! i) = StepFailed
                   \<and> step_error (stps ! i) = Some (thrown_message e)
                   \<and> (''Trade failed: '' @ thrown_message e) \<in> set errs
               | (Inr None, sp) \<Rightarrow>
                   step_status (stps ! i) = StepFailed
                   \<and> step_error (stps ! i) = Some ''Could not get input token price''
                   \<and> ''swap failed: Could not get input token price'' \<in> set errs
               | (Inr (Some pr), sp) \<Rightarrow>
                   (case firstStageFailure sv
                           (executeSwapTrade_params cfg addr (the (fromAsset (ts ! i)))
                              (toAsset (ts ! i)) (amountUsd (ts ! i)) pr) signer sp of
                      None \<Rightarrow>
                        step_status (stps ! i) = StepCompleted \<and> step_error (stps ! i) = None
                    | Some f \<Rightarrow>
                        step_status (stps ! i) = StepFailed
                        \<and> (if failureMessage f = [] then step_error (stps ! i) = None
                            else step_error (stps ! i) = Some (failureMessage f)
                                 \<and> (''swap failed: '' @ failureMessage f) \<in> set errs))))"
proof -
  from executeTrades_acc [OF assms] have
    len: "length stps = length ts" and assets: "map step_asset stps = map toAsset ts"
    by auto
  have each: "(case invoke (CallGetTokenPrice (the (fromAsset (ts ! i))))
                       (sdk_getTokenPrice sv (the (fromAsset (ts ! i)))) si of
                 (Inl e, sp) \<Rightarrow>
                   step_status (stps ! i) = StepFailed
                   \<and> step_error (stps ! i) = Some (thrown_message e)
                   \<and> (''Trade failed: '' @ thrown_message e) \<in> set errs
               | (Inr None, sp) \<Rightarrow>
                   step_status (stps ! i) = StepFailed
                   \<and> step_error (stps ! i) = Some ''Could not get input token price''
                   \<and> ''swap failed: Could not get input token price'' \<in> set errs
               | (Inr (Some pr), sp) \<Rightarrow>
                   (case firstStageFailure sv
                           (executeSwapTrade_params cfg addr (the (fromAsset (ts ! i)))
                              (toAsset (ts ! i)) (amountUsd (ts ! i)) pr) signer sp of
                      None \<Rightarrow>
                        step_status (stps ! i) = StepCompleted \<and> step_error (stps ! i) = None
                    | Some f \<Rightarrow>
                        step_status (stps ! i) = StepFailed
                        \<and> (if failureMessage f = [] then step_error (stps ! i) = None
                            else step_error (stps ! i) = Some (failureMessage f)
                                 \<and> (''swap failed: '' @ failureMessage f) \<in> set errs)))"
    if i: "i < length ts" and sw: "trade_type (ts ! i) = Swap" "truthy (fromAsset (ts ! i))"
      and before: "executeTrades cfg sv addr signer pf (take i ts) [] [] 0 s
                     = ((stps0, errs0, traded0), si)"
    for i stps0 errs0 traded0 si
  proof -
    from executeTrades_nth [OF assms i before] obtain errs1 traded1 sk where
      one: "executeTrade cfg sv addr signer pf (ts ! i) errs0 traded0 si
              = ((stps ! i, errs1, traded1), sk)"
      and sub: "set errs1 \<subseteq> set errs"
      by blast
    from executeTrade_stages [OF sw one] sub show ?thesis
      by (auto split: prod.splits sum.splits option.splits if_splits)
  qed
  show ?thesis
  proof (intro conjI allI impI)
    show "length stps = length ts" by (rule len)
    show "map step_asset stps = map toAsset ts" by (rule assets)
  next
    fix i stps0 errs0 traded0 si
    assume h: "i < length ts \<and> trade_type (ts ! i) = Swap \<and> truthy (fromAsset (ts ! i))
          \<and> executeTrades cfg sv addr signer pf (take i ts) [] [] 0 s
               = ((stps0, errs0, traded0), si)"
    then have h1: "i < length ts" and h2: "trade_type (ts ! i) = Swap"
      and h3: "truthy (fromAsset (ts ! i))"
      and h4: "executeTrades cfg sv addr signer pf (take i ts) [] [] 0 s
               = ((stps0, errs0, traded0), si)"
      by blast+
    from each [OF h1 h2 h3 h4]
    show "(case invoke (CallGetTokenPrice (the (fromAsset (ts ! i))))
                       (sdk_getTokenPrice sv (the (fromAsset (ts ! i)))) si of
                 (Inl e, sp) \<Rightarrow>
                   step_status (stps ! i) = StepFailed
                   \<and> step_error (stps ! i) = Some (thrown_message e)
                   \<and> (''Trade failed: '' @ thrown_message e) \<in> set errs
               | (Inr None, sp) \<Rightarrow>
                   step_status (stps ! i) = StepFailed
                   \<and> step_error (stps ! i) = Some ''Could not get input token price''
                   \<and> ''swap failed: Could not get input token price'' \<in> set errs
               | (Inr (Some pr), sp) \<Rightarrow>
                   (case firstStageFailure sv
                           (executeSwapTrade_params cfg addr (the (fromAsset (ts ! i)))
                              (toAsset (ts ! i)) (amountUsd (ts ! i)) pr) signer sp of
                      None \<Rightarrow>
                        step_status (stps ! i) = StepCompleted \<and> step_error (stps ! i) = None
                    | Some f \<Rightarrow>
                        step_status (stps ! i) = StepFailed
                        \<and> (if failureMessage f = [] then step_error (stps ! i) = None
                            else step_error (stps ! i) = Some (failureMessage f)
                                 \<and> (''swap failed: '' @ failureMessage f) \<in> set errs)))" .
  qed
qed

theorem pipeline_failures_recorded_witness:
  "executeTrades liveConfig exampleServices ''wallet'' ''signer'' examplePortfolio exampleTrades
      [] [] 0 \<lparr>world = 1, calls = [CallGetPortfolio ''wallet'']\<rparr>
     = ((exampleLiveSteps, [''swap failed: Jupiter quote error: 400 - no route''], 20),
        \<lparr>world = 14, calls = exampleCallsFirst @ exampleCallsSecond\<rparr>)
   \<and> length exampleLiveSteps = length exampleTrades
   \<and> trade_type (exampleTrades ! 1) = Swap
   \<and> truthy (fromAsset (exampleTrades ! 1))
   \<and> firstStageFailure exampleServices
        (executeSwapTrade_params liveConfig ''wallet'' COMMON_TOKENS_WBTC COMMON_TOKENS_USDC 300
           \<lparr>price_mint = COMMON_TOKENS_WBTC, price_symbol = ''UNKNOWN'', priceUsd = 50000\<rparr>)
        ''signer''
        \<lparr>world = 11, calls = exampleCallsFirst @ [CallGetTokenPrice COMMON_TOKENS_WBTC]\<rparr>
       = Some (Threw Quote (Error ''Jupiter quote error: 400 - no route''))
   \<and> step_status (exampleLiveSteps ! 1) = StepFailed
   \<and> step_error (exampleLiveSteps ! 1) = Some ''Jupiter quote error: 400 - no route''"
proof -
  have i: "(1::nat) < length exampleTrades"
    and sw: "trade_type (exampleTrades ! 1) = Swap" "truthy (fromAsset (exampleTrades ! 1))"
    and tr: "the (fromAsset (exampleTrades ! 1)) = COMMON_TOKENS_WBTC"
      "toAsset (exampleTrades ! 1) = COMMON_TOKENS_USDC" "amountUsd (exampleTrades ! 1) = 300"
    by (simp_all add: exampleTrades_def COMMON_TOKENS_defs)
  have price: "invoke (CallGetTokenPrice COMMON_TOKENS_WBTC)
                 (sdk_getTokenPrice exampleServices COMMON_TOKENS_WBTC)
                 \<lparr>world = 10, calls = exampleCallsFirst\<rparr>
               = (Inr (Some \<lparr>price_mint = COMMON_TOKENS_WBTC, price_symbol = ''UNKNOWN'',
                             priceUsd = 50000\<rparr>),
                  \<lparr>world = 11, calls = exampleCallsFirst @ [CallGetTokenPrice COMMON_TOKENS_WBTC]\<rparr>)"
    by (simp add: invoke_def exampleServices_def COMMON_TOKENS_defs)
  have fails: "firstStageFailure exampleServices
        (executeSwapTrade_params liveConfig ''wallet'' COMMON_TOKENS_WBTC COMMON_TOKENS_USDC 300
           \<lparr>price_mint = COMMON_TOKENS_WBTC, price_symbol = ''UNKNOWN'', priceUsd = 50000\<rparr>)
        ''signer''
        \<lparr>world = 11, calls = exampleCallsFirst @ [CallGetTokenPrice COMMON_TOKENS_WBTC]\<rparr>
       = Some (Threw Quote (Error ''Jupiter quote error: 400 - no route''))"
    by (simp add: firstStageFailure_def stage_def invoke_def exampleServices_def
        executeSwapTrade_params_def)
  note run = pipeline_failures_recorded [OF example_executeTrades]
  from run have len: "length exampleLiveSteps = length exampleTrades"
    by (rule conjunct1)
  from run [THEN conjunct2, THEN conjunct2, rule_format,
      OF conjI [OF i conjI [OF sw(1) conjI [OF sw(2) example_firstTrade]]]]
  have "step_status (exampleLiveSteps ! 1) = StepFailed
        \<and> step_error (exampleLiveSteps ! 1) = Some ''Jupiter quote error: 400 - no route''"
    unfolding tr price prod.case sum.case option.case fails by simp
  with example_executeTrades len sw fails show ?thesis by simp
qed

text \<open>
  The claim as first stated fails where the message of the failure is the empty string:
  with services whose broadcast throws such an \<open>Error\<close>, the first trade of the plan
  fails at the broadcast, its step is failed but has no error, and the error list holds
  only the message of the second trade.
\<close>

theorem pipeline_failure_unrecorded_counterexample:
  "firstStageFailure silentServices
        (executeSwapTrade_params liveConfig ''wallet'' COMMON_TOKENS_USDC COMMON_TOKENS_SOL 20
           \<lparr>price_mint = COMMON_TOKENS_USDC, price_symbol = ''UNKNOWN'', priceUsd = 1\<rparr>)
        ''signer''
        \<lparr>world = 2, calls = [CallGetPortfolio ''wallet'', CallGetTokenPrice COMMON_TOKENS_USDC]\<rparr>
       = Some (Threw Broadcast (Error []))
   \<and> map step_status (fst (fst (executeTrades liveConfig silentServices ''wallet'' ''signer''
        examplePortfolio exampleTrades [] [] 0
        \<lparr>world = 1, calls = [CallGetPortfolio ''wallet'']\<rparr>))) = [StepFailed, StepFailed]
   \<and> map step_error (fst (fst (executeTrades liveConfig silentServices ''wallet'' ''signer''
        examplePortfolio exampleTrades [] [] 0
        \<lparr>world = 1, calls = [CallGetPortfolio ''wallet'']\<rparr>)))
       = [None, Some ''Jupiter quote error: 400 - no route'']
   \<and> fst (snd (fst (executeTrades liveConfig silentServices ''wallet'' ''signer''
        examplePortfolio exampleTrades [] [] 0
        \<lparr>world = 1, calls = [CallGetPortfolio ''wallet'']\<rparr>)))
       = [''swap failed: Jupiter quote error: 400 - no route'']"
proof -
  have a: "firstStageFailure silentServices
        (executeSwapTrade_params liveConfig ''wallet'' COMMON_TOKENS_USDC COMMON_TOKENS_SOL 20
           \<lparr>price_mint = COMMON_TOKENS_USDC, price_symbol = ''UNKNOWN'', priceUsd = 1\<rparr>)
        ''signer''
        \<lparr>world = 2, calls = [CallGetPortfolio ''wallet'', CallGetTokenPrice COMMON_TOKENS_USDC]\<rparr>
       = Some (Threw Broadcast (Error []))"
    by (simp add: firstStageFailure_def stage_def invoke_def silentServices_def
        exampleServices_def executeSwapTrade_params_def COMMON_TOKENS_defs)
  have b: "fst (executeTrades liveConfig silentServices ''wallet'' ''signer''
        examplePortfolio exampleTrades [] [] 0
        \<lparr>world = 1, calls = [CallGetPortfolio ''wallet'']\<rparr>)
     = ([(exampleLiveSteps ! 0)
           \<lparr>step_status := StepFailed,
            step_result := Some \<lparr>signature = [], inputMint = COMMON_TOKENS_USDC,
                                  outputMint = COMMON_TOKENS_SOL, inputAmount = Some 20,
                                  outputAmount = 0, swap_status = SwapFailed,
                                  swap_error = Some []\<rparr>\<rparr>,
         exampleLiveSteps ! 1],
        [''swap failed: Jupiter quote error: 400 - no route''], 0)"
    by (simp add: exampleTrades_def executeTrade_def executeSwapTrade_def executeSwap_def
        executeSwap_try_def await_def invoke_def silentServices_def exampleServices_def
        liveConfig_def DEFAULT_CONFIG_def pctOf_def examplePortfolio_eq exampleLiveSteps_def
        COMMON_TOKENS_defs Let_def)
  show ?thesis
    unfolding a b by (simp add: exampleLiveSteps_def)
qed

end
